theory Spec2Isabelle
  imports Complex_Main "HOL-Library.Sublist"
begin

section \<open>Values of the host language\<close>

subsection \<open>Strings\<close>

text \<open>
  A string is a list of characters, each standing for one UTF-16 code unit below 256, so that
  \<open>length\<close> counts what the source's \<^verbatim>\<open>.length\<close> counts. Among these code units the
  white space and line terminators that \<^verbatim>\<open>String.prototype.trim\<close> and the regular
  expression class \<^verbatim>\<open>\s\<close> recognise are TAB, LF, VT, FF, CR, SPACE and NBSP.
\<close>

definition isWhiteSpace :: "char \<Rightarrow> bool" where
  "isWhiteSpace c = (of_char c \<in> {9::nat, 10, 11, 12, 13, 32, 160})"

definition trim :: "string \<Rightarrow> string" where
  "trim s = rev (dropWhile isWhiteSpace (rev (dropWhile isWhiteSpace s)))"

text \<open>A string used as a condition: missing and empty strings are falsy.\<close>

definition truthy :: "string option \<Rightarrow> bool" where
  "truthy s = (case s of None \<Rightarrow> False | Some x \<Rightarrow> x \<noteq> [])"

text \<open>\<^verbatim>\<open>s.includes(sub)\<close>: \<open>sub\<close> occurs in \<open>s\<close> as a contiguous run.\<close>

definition str_includes :: "string \<Rightarrow> string \<Rightarrow> bool" where
  "str_includes s sub = sublist sub s"

subsection \<open>Dates\<close>

text \<open>
  A \<^verbatim>\<open>Date\<close> object holds a time value: a whole number of milliseconds since the epoch, or
  NaN (an invalid date). Comparing two dates with \<^verbatim>\<open><\<close> compares the time values, and
  every comparison with NaN is false.
\<close>

datatype date = Date int | InvalidDate

fun date_less :: "date \<Rightarrow> date \<Rightarrow> bool" where
  "date_less (Date a) (Date b) = (a < b)"
| "date_less _ _ = False"

text \<open>
  What may sit in a date field of a JSON-shaped object handed to \<^verbatim>\<open>new Date(v)\<close>: a
  \<^verbatim>\<open>Date\<close> object (its time value is copied), a string (parsed by the runtime, which is a
  parameter here), \<^verbatim>\<open>null\<close> (the epoch) or \<^verbatim>\<open>undefined\<close> (an invalid date).
\<close>

datatype json_date = JDate date | JString string | JNull | JUndefined

fun new_Date :: "(string \<Rightarrow> date) \<Rightarrow> json_date \<Rightarrow> date" where
  "new_Date parse (JDate d) = d"
| "new_Date parse (JString s) = parse s"
| "new_Date parse JNull = Date 0"
| "new_Date parse JUndefined = InvalidDate"

subsection \<open>Thrown values\<close>

text \<open>What a \<^verbatim>\<open>catch\<close> clause can receive: an instance of \<^verbatim>\<open>Error\<close> with its
  message, or any other value.\<close>

datatype thrown = Error string | NonError

section \<open>The Message entity\<close>

text \<open>
  \<^verbatim>\<open>MessageProps\<close> as a caller can pass it. Fields have their declared types; a field
  for whose absence the constructor has a check of its own (the timestamp) is optional. The type
  parameter is the representation of the three sequence fields: a list of strings where only the
  contents matter, a reference into a store of arrays where sharing matters.
\<close>

record 'seq MessageProps =
  p_id :: string
  p_role :: string
  p_content :: string
  p_timestamp :: "date option"
  p_conversationId :: "string option"
  p_spiritualThemes :: "'seq option"
  p_suggestedActions :: "'seq option"
  p_relatedTopics :: "'seq option"

text \<open>A constructed message: the stored copy of props that passed validation.\<close>

record 'seq Message_of =
  m_id :: string
  m_role :: string
  m_content :: string
  m_timestamp :: date
  m_conversationId :: "string option"
  m_spiritualThemes :: "'seq option"
  m_suggestedActions :: "'seq option"
  m_relatedTopics :: "'seq option"

type_synonym Message = "string list Message_of"

text \<open>
  The constructor: \<^verbatim>\<open>validateMessage(props)\<close> throws at the first violated check, in the
  order of the source; otherwise \<^verbatim>\<open>this.props = { ...props }\<close> keeps every field as given
  (the sequence fields are not copied).
\<close>

definition Message_new :: "'seq MessageProps \<Rightarrow> thrown + 'seq Message_of" where
  \<open>Message_new props =
    (if trim (p_id props) = [] then Inl (Error ''Message ID is required'')
     else if trim (p_content props) = [] then Inl (Error ''Message content cannot be empty'')
     else if length (p_content props) > 2000
     then Inl (Error ''Message too long. Please keep messages under 2000 characters.'')
     else if p_role props \<notin> set [''user'', ''assistant'']
     then Inl (Error ''Invalid message role. Must be "user" or "assistant"'')
     else (case p_timestamp props of
        None \<Rightarrow> Inl (Error ''Message timestamp is required'')
      | Some t \<Rightarrow>
         Inr \<lparr>m_id = p_id props, m_role = p_role props, m_content = p_content props,
              m_timestamp = t,
              m_conversationId = p_conversationId props,
              m_spiritualThemes = p_spiritualThemes props,
              m_suggestedActions = p_suggestedActions props,
              m_relatedTopics = p_relatedTopics props\<rparr>))\<close>

text \<open>\<^verbatim>\<open>this.props\<close> of a constructed message.\<close>

definition message_props :: "'seq Message_of \<Rightarrow> 'seq MessageProps" where
  "message_props m =
     \<lparr>p_id = m_id m, p_role = m_role m, p_content = m_content m,
      p_timestamp = Some (m_timestamp m),
      p_conversationId = m_conversationId m,
      p_spiritualThemes = m_spiritualThemes m,
      p_suggestedActions = m_suggestedActions m,
      p_relatedTopics = m_relatedTopics m\<rparr>"

text \<open>The getters of the sequence fields: \<^verbatim>\<open>this.props.spiritualThemes || []\<close>.\<close>

definition get_spiritualThemes :: "Message \<Rightarrow> string list" where
  "get_spiritualThemes m = (case m_spiritualThemes m of Some xs \<Rightarrow> xs | None \<Rightarrow> [])"

definition get_suggestedActions :: "Message \<Rightarrow> string list" where
  "get_suggestedActions m = (case m_suggestedActions m of Some xs \<Rightarrow> xs | None \<Rightarrow> [])"

definition get_relatedTopics :: "Message \<Rightarrow> string list" where
  "get_relatedTopics m = (case m_relatedTopics m of Some xs \<Rightarrow> xs | None \<Rightarrow> [])"

definition isFromUser :: "'seq Message_of \<Rightarrow> bool" where
  "isFromUser m = (m_role m = ''user'')"

definition isFromAssistant :: "'seq Message_of \<Rightarrow> bool" where
  "isFromAssistant m = (m_role m = ''assistant'')"

text \<open>Decimal rendering of a whole number, as a template literal renders \<^verbatim>\<open>Date.now()\<close>.\<close>

function digits :: "int \<Rightarrow> string" where
  "digits i = (if i < 10 then [char_of (48 + i)] else digits (i div 10) @ [char_of (48 + i mod 10)])"
  by pat_completeness auto
termination
  by (relation "measure nat") auto

definition number_to_string :: "int \<Rightarrow> string" where
  "number_to_string i = (if i < 0 then CHR ''-'' # digits (- i) else digits i)"

text \<open>
  The factories. Their first three arguments are what the runtime supplies at the call: the
  reading of \<^verbatim>\<open>Date.now()\<close> that goes into the id, the value of
  \<^verbatim>\<open>Math.random().toString(36).substr(2, 9)\<close>, and the reading of \<^verbatim>\<open>new Date()\<close>
  that becomes the timestamp.
\<close>

definition createUserMessage ::
  "int \<Rightarrow> string \<Rightarrow> int \<Rightarrow> string \<Rightarrow> string option \<Rightarrow> thrown + Message" where
  "createUserMessage t_id rnd t_now content conversationId =
     Message_new \<lparr>p_id = ''user-'' @ number_to_string t_id @ ''-'' @ rnd,
                  p_role = ''user'',
                  p_content = trim content,
                  p_timestamp = Some (Date t_now),
                  p_conversationId = conversationId,
                  p_spiritualThemes = None, p_suggestedActions = None, p_relatedTopics = None\<rparr>"

definition createAssistantMessage ::
  "int \<Rightarrow> string \<Rightarrow> int \<Rightarrow> string \<Rightarrow> string option \<Rightarrow> string list option \<Rightarrow>
   string list option \<Rightarrow> string list option \<Rightarrow> thrown + Message" where
  "createAssistantMessage t_id rnd t_now content conversationId spiritualThemes suggestedActions
       relatedTopics =
     Message_new \<lparr>p_id = ''assistant-'' @ number_to_string t_id @ ''-'' @ rnd,
                  p_role = ''assistant'',
                  p_content = trim content,
                  p_timestamp = Some (Date t_now),
                  p_conversationId = conversationId,
                  p_spiritualThemes = spiritualThemes,
                  p_suggestedActions = suggestedActions,
                  p_relatedTopics = relatedTopics\<rparr>"

text \<open>
  Serialization. \<^verbatim>\<open>toJSON\<close> returns \<^verbatim>\<open>{ ...this.props }\<close>: the timestamp field holds
  the \<^verbatim>\<open>Date\<close> object itself. \<^verbatim>\<open>fromJSON\<close> rebuilds the timestamp with
  \<^verbatim>\<open>new Date(json.timestamp)\<close> and goes through the constructor.
\<close>

record 'seq MessageJSON =
  j_id :: string
  j_role :: string
  j_content :: string
  j_timestamp :: json_date
  j_conversationId :: "string option"
  j_spiritualThemes :: "'seq option"
  j_suggestedActions :: "'seq option"
  j_relatedTopics :: "'seq option"

definition Message_toJSON :: "'seq Message_of \<Rightarrow> 'seq MessageJSON" where
  "Message_toJSON m =
     \<lparr>j_id = m_id m, j_role = m_role m, j_content = m_content m,
      j_timestamp = JDate (m_timestamp m),
      j_conversationId = m_conversationId m,
      j_spiritualThemes = m_spiritualThemes m,
      j_suggestedActions = m_suggestedActions m,
      j_relatedTopics = m_relatedTopics m\<rparr>"

definition Message_fromJSON :: "(string \<Rightarrow> date) \<Rightarrow> 'seq MessageJSON \<Rightarrow> thrown + 'seq Message_of" where
  "Message_fromJSON parse json =
     Message_new \<lparr>p_id = j_id json, p_role = j_role json, p_content = j_content json,
                  p_timestamp = Some (new_Date parse (j_timestamp json)),
                  p_conversationId = j_conversationId json,
                  p_spiritualThemes = j_spiritualThemes json,
                  p_suggestedActions = j_suggestedActions json,
                  p_relatedTopics = j_relatedTopics json\<rparr>"

section \<open>The Conversation entity\<close>

text \<open>
  \<^verbatim>\<open>ConversationProps\<close>: the message sequence and the two dates, each of which the
  constructor tests for presence, are optional. The type parameter is the representation of the
  message sequence: a list of messages, or a reference into a store of arrays.
\<close>

record 'ms ConversationProps =
  cp_id :: string
  cp_messages :: "'ms option"
  cp_createdAt :: "date option"
  cp_updatedAt :: "date option"
  cp_summary :: "string option"
  cp_userId :: "string option"

record 'ms Conversation_of =
  c_id :: string
  c_messages :: 'ms
  c_createdAt :: date
  c_updatedAt :: date
  c_summary :: "string option"
  c_userId :: "string option"

type_synonym Conversation = "Message list Conversation_of"

text \<open>\<^verbatim>\<open>validateConversation(props)\<close>: throws at the first violated check, in the order
  of the source; otherwise the props are returned with every tested field present.\<close>

definition validateConversation :: "'ms ConversationProps \<Rightarrow> thrown + 'ms Conversation_of" where
  "validateConversation props =
    (if trim (cp_id props) = [] then Inl (Error ''Conversation ID is required'')
     else (case cp_messages props of
        None \<Rightarrow> Inl (Error ''Messages must be an array'')
      | Some ms \<Rightarrow>
        (case cp_createdAt props of
           None \<Rightarrow> Inl (Error ''Conversation creation date is required'')
         | Some created \<Rightarrow>
           (case cp_updatedAt props of
              None \<Rightarrow> Inl (Error ''Conversation update date is required'')
            | Some updated \<Rightarrow>
               if date_less updated created
               then Inl (Error ''Update date cannot be before creation date'')
               else Inr \<lparr>c_id = cp_id props, c_messages = ms, c_createdAt = created,
                         c_updatedAt = updated, c_summary = cp_summary props,
                         c_userId = cp_userId props\<rparr>))))"

text \<open>The constructor on message lists: the copy \<^verbatim>\<open>[...props.messages]\<close> of a list is
  the list.\<close>

definition Conversation_new :: "Message list ConversationProps \<Rightarrow> thrown + Conversation" where
  "Conversation_new props = validateConversation props"

text \<open>\<^verbatim>\<open>{ ...this.props }\<close>: the stored props of a constructed conversation.\<close>

definition props_of :: "'ms Conversation_of \<Rightarrow> 'ms ConversationProps" where
  "props_of c =
     \<lparr>cp_id = c_id c, cp_messages = Some (c_messages c), cp_createdAt = Some (c_createdAt c),
      cp_updatedAt = Some (c_updatedAt c), cp_summary = c_summary c, cp_userId = c_userId c\<rparr>"

definition get_messages :: "Conversation \<Rightarrow> Message list" where
  "get_messages c = c_messages c"

definition isEmpty :: "Conversation \<Rightarrow> bool" where
  "isEmpty c = (length (c_messages c) = 0)"

definition getMessageCount :: "Conversation \<Rightarrow> nat" where
  "getMessageCount c = length (c_messages c)"

definition getLastMessage :: "Conversation \<Rightarrow> Message option" where
  "getLastMessage c = (if isEmpty c then None else Some (c_messages c ! (length (c_messages c) - 1)))"

definition getFirstMessage :: "Conversation \<Rightarrow> Message option" where
  "getFirstMessage c = (if isEmpty c then None else Some (c_messages c ! 0))"

text \<open>
  \<^verbatim>\<open>addMessage\<close>; the first argument is the reading of \<^verbatim>\<open>new Date()\<close> at the call.
  The guard is \<^verbatim>\<open>message.conversationId && message.conversationId !== this.id\<close>, and
  the result goes through the constructor again.
\<close>

definition addMessage :: "int \<Rightarrow> Conversation \<Rightarrow> Message \<Rightarrow> thrown + Conversation" where
  "addMessage now c message =
    (if truthy (m_conversationId message) \<and> m_conversationId message \<noteq> Some (c_id c)
     then Inl (Error ''Message conversation ID does not match'')
     else Conversation_new ((props_of c)\<lparr>cp_messages := Some (c_messages c @ [message]),
                                          cp_updatedAt := Some (Date now)\<rparr>))"

definition updateSummary :: "int \<Rightarrow> Conversation \<Rightarrow> string \<Rightarrow> thrown + Conversation" where
  "updateSummary now c summary =
    (if trim summary = [] then Inl (Error ''Summary cannot be empty'')
     else Conversation_new ((props_of c)\<lparr>cp_summary := Some (trim summary),
                                          cp_updatedAt := Some (Date now)\<rparr>))"

text \<open>\<^verbatim>\<open>createNew\<close>: \<open>t_now\<close> is the reading of \<^verbatim>\<open>new Date()\<close>, \<open>t_id\<close> that of
  \<^verbatim>\<open>Date.now()\<close> in the id, \<open>rnd\<close> the random suffix.\<close>

definition createNew :: "int \<Rightarrow> int \<Rightarrow> string \<Rightarrow> string option \<Rightarrow> thrown + Conversation" where
  "createNew t_now t_id rnd userId =
     Conversation_new \<lparr>cp_id = ''conv-'' @ number_to_string t_id @ ''-'' @ rnd,
                       cp_messages = Some [],
                       cp_createdAt = Some (Date t_now),
                       cp_updatedAt = Some (Date t_now),
                       cp_summary = None,
                       cp_userId = userId\<rparr>"

text \<open>Serialization. \<^verbatim>\<open>Array.prototype.map\<close> with a callback that may throw stops at the
  first element on which it throws.\<close>

fun map_throw :: "('a \<Rightarrow> thrown + 'b) \<Rightarrow> 'a list \<Rightarrow> thrown + 'b list" where
  "map_throw f [] = Inr []"
| "map_throw f (x # xs) =
     (case f x of
        Inl e \<Rightarrow> Inl e
      | Inr y \<Rightarrow> (case map_throw f xs of Inl e \<Rightarrow> Inl e | Inr ys \<Rightarrow> Inr (y # ys)))"

record ConversationJSON =
  cj_id :: string
  cj_createdAt :: json_date
  cj_updatedAt :: json_date
  cj_summary :: "string option"
  cj_userId :: "string option"
  cj_messages :: "string list MessageJSON list"

definition Conversation_toJSON :: "Conversation \<Rightarrow> ConversationJSON" where
  "Conversation_toJSON c =
     \<lparr>cj_id = c_id c,
      cj_createdAt = JDate (c_createdAt c),
      cj_updatedAt = JDate (c_updatedAt c),
      cj_summary = c_summary c,
      cj_userId = c_userId c,
      cj_messages = map Message_toJSON (c_messages c)\<rparr>"

definition Conversation_fromJSON :: "(string \<Rightarrow> date) \<Rightarrow> ConversationJSON \<Rightarrow> thrown + Conversation" where
  "Conversation_fromJSON parse json =
     (case map_throw (Message_fromJSON parse) (cj_messages json) of
        Inl e \<Rightarrow> Inl e
      | Inr messages \<Rightarrow>
          Conversation_new \<lparr>cp_id = cj_id json,
                            cp_messages = Some messages,
                            cp_createdAt = Some (new_Date parse (cj_createdAt json)),
                            cp_updatedAt = Some (new_Date parse (cj_updatedAt json)),
                            cp_summary = cj_summary json,
                            cp_userId = cj_userId json\<rparr>)"

text \<open>
  What the repository stores and reads back: \<^verbatim>\<open>saveConversation\<close> writes
  \<^verbatim>\<open>JSON.stringify(conversation.toJSON())\<close>, and \<^verbatim>\<open>loadConversation\<close> hands
  \<^verbatim>\<open>JSON.parse\<close> of that text to \<^verbatim>\<open>fromJSON\<close>. Stringifying replaces a
  \<^verbatim>\<open>Date\<close> by the result of its \<^verbatim>\<open>toJSON()\<close>: the ISO-8601 string of a valid date,
  as the runtime prints it (the parameter \<open>toISOString\<close>), and \<^verbatim>\<open>null\<close> for an invalid date.
  Strings, arrays of strings and absent fields come back as they were.
\<close>

definition Date_toJSON :: "(int \<Rightarrow> string) \<Rightarrow> date \<Rightarrow> json_date" where
  "Date_toJSON toISOString d = (case d of Date t \<Rightarrow> JString (toISOString t) | InvalidDate \<Rightarrow> JNull)"

definition stored_date :: "(int \<Rightarrow> string) \<Rightarrow> json_date \<Rightarrow> json_date" where
  "stored_date toISOString v = (case v of JDate d \<Rightarrow> Date_toJSON toISOString d | _ \<Rightarrow> v)"

definition Message_stored :: "(int \<Rightarrow> string) \<Rightarrow> 'seq MessageJSON \<Rightarrow> 'seq MessageJSON" where
  "Message_stored toISOString json = json\<lparr>j_timestamp := stored_date toISOString (j_timestamp json)\<rparr>"

definition Conversation_stored :: "(int \<Rightarrow> string) \<Rightarrow> ConversationJSON \<Rightarrow> ConversationJSON" where
  "Conversation_stored toISOString json =
     json\<lparr>cj_createdAt := stored_date toISOString (cj_createdAt json),
          cj_updatedAt := stored_date toISOString (cj_updatedAt json),
          cj_messages := map (Message_stored toISOString) (cj_messages json)\<rparr>"

section \<open>Sequence fields as shared arrays\<close>

text \<open>
  Arrays are objects: a sequence field holds a reference, and two holders of one reference see
  each other's writes. A store maps references to array contents; \<open>fresh\<close> is the next unused
  reference, and the references below it are the allocated ones.
\<close>

record 'a store =
  cells :: "nat \<Rightarrow> 'a list"
  fresh :: nat

definition allocated :: "'a store \<Rightarrow> nat \<Rightarrow> bool" where
  "allocated h r = (r < fresh h)"

text \<open>A new array with the given contents (an array literal, a spread copy).\<close>

definition alloc :: "'a list \<Rightarrow> 'a store \<Rightarrow> nat \<times> 'a store" where
  "alloc xs h = (fresh h, h\<lparr>cells := (cells h)(fresh h := xs), fresh := Suc (fresh h)\<rparr>)"

text \<open>\<^verbatim>\<open>Array.prototype.push\<close> on the array behind a reference.\<close>

definition array_push :: "nat \<Rightarrow> 'a \<Rightarrow> 'a store \<Rightarrow> 'a store" where
  "array_push r x h = h\<lparr>cells := (cells h)(r := cells h r @ [x])\<rparr>"

text \<open>
  A message whose sequence fields are references is built by the same constructor
  \<open>Message_new\<close>, which stores the references it is given. The getters
  \<^verbatim>\<open>return this.props.spiritualThemes || []\<close> hand out the stored reference when there is
  one (an array is truthy even when empty), and a new empty array otherwise.
\<close>

definition spiritualThemes_ref :: "nat Message_of \<Rightarrow> string store \<Rightarrow> nat \<times> string store" where
  "spiritualThemes_ref m h = (case m_spiritualThemes m of Some r \<Rightarrow> (r, h) | None \<Rightarrow> alloc [] h)"

definition suggestedActions_ref :: "nat Message_of \<Rightarrow> string store \<Rightarrow> nat \<times> string store" where
  "suggestedActions_ref m h = (case m_suggestedActions m of Some r \<Rightarrow> (r, h) | None \<Rightarrow> alloc [] h)"

definition relatedTopics_ref :: "nat Message_of \<Rightarrow> string store \<Rightarrow> nat \<times> string store" where
  "relatedTopics_ref m h = (case m_relatedTopics m of Some r \<Rightarrow> (r, h) | None \<Rightarrow> alloc [] h)"

text \<open>
  A conversation whose message sequence is a reference. The constructor stores
  \<^verbatim>\<open>[...props.messages]\<close>, a new array; so do the getter \<^verbatim>\<open>messages\<close> and
  \<^verbatim>\<open>addMessage\<close>, which builds \<^verbatim>\<open>[...this.props.messages, message]\<close> and passes
  it to the constructor.
\<close>

definition Conversation_new_ref ::
  "nat ConversationProps \<Rightarrow> Message store \<Rightarrow> (thrown + nat Conversation_of) \<times> Message store" where
  "Conversation_new_ref props h =
     (case validateConversation props of
        Inl e \<Rightarrow> (Inl e, h)
      | Inr c \<Rightarrow> (let (r, h') = alloc (cells h (c_messages c)) h in (Inr (c\<lparr>c_messages := r\<rparr>), h')))"

definition messages_ref :: "nat Conversation_of \<Rightarrow> Message store \<Rightarrow> nat \<times> Message store" where
  "messages_ref c h = alloc (cells h (c_messages c)) h"

definition getMessageCount_ref :: "nat Conversation_of \<Rightarrow> Message store \<Rightarrow> nat" where
  "getMessageCount_ref c h = length (cells h (c_messages c))"

definition addMessage_ref ::
  "int \<Rightarrow> nat Conversation_of \<Rightarrow> Message \<Rightarrow> Message store \<Rightarrow>
   (thrown + nat Conversation_of) \<times> Message store" where
  "addMessage_ref now c message h =
    (if truthy (m_conversationId message) \<and> m_conversationId message \<noteq> Some (c_id c)
     then (Inl (Error ''Message conversation ID does not match''), h)
     else (let (newMessages, h1) = alloc (cells h (c_messages c) @ [message]) h
           in Conversation_new_ref ((props_of c)\<lparr>cp_messages := Some newMessages,
                                                  cp_updatedAt := Some (Date now)\<rparr>) h1))"

text \<open>What a conversation with a reference denotes in a store.\<close>

definition conversation_in :: "Message store \<Rightarrow> nat Conversation_of \<Rightarrow> Conversation" where
  "conversation_in h c =
     \<lparr>c_id = c_id c, c_messages = cells h (c_messages c), c_createdAt = c_createdAt c,
      c_updatedAt = c_updatedAt c, c_summary = c_summary c, c_userId = c_userId c\<rparr>"

section \<open>The runtime and the repositories seen from a use case\<close>

text \<open>
  A use case reads the system clock and the random generator and awaits repository methods. The
  world it runs in holds the successive clock readings (nothing makes them increase) and random
  suffixes with the number of each consumed so far, the state of the backend behind the
  repository, and the log of the repository calls made. An awaited call that rejects is a thrown
  value; every repository method is taken to settle.
\<close>

record ('s, 'c) world =
  clock :: "nat \<Rightarrow> int"
  ticks :: nat
  random :: "nat \<Rightarrow> string"
  draws :: nat
  backend :: 's
  calls :: "'c list"

definition read_clock :: "('s, 'c) world \<Rightarrow> int \<times> ('s, 'c) world" where
  "read_clock w = (clock w (ticks w), w\<lparr>ticks := Suc (ticks w)\<rparr>)"

definition random_suffix :: "('s, 'c) world \<Rightarrow> string \<times> ('s, 'c) world" where
  "random_suffix w = (random w (draws w), w\<lparr>draws := Suc (draws w)\<rparr>)"

text \<open>Sequencing of steps that may throw, and \<^verbatim>\<open>try { ... } catch (error) { ... }\<close>.\<close>

definition return_io :: "'a \<Rightarrow> 'w \<Rightarrow> (thrown + 'a) \<times> 'w" where
  "return_io x w = (Inr x, w)"

definition bind_io ::
  "('w \<Rightarrow> (thrown + 'a) \<times> 'w) \<Rightarrow> ('a \<Rightarrow> 'w \<Rightarrow> (thrown + 'b) \<times> 'w) \<Rightarrow> 'w \<Rightarrow> (thrown + 'b) \<times> 'w" where
  "bind_io step rest w = (case step w of (Inl e, w') \<Rightarrow> (Inl e, w') | (Inr x, w') \<Rightarrow> rest x w')"

definition try_catch ::
  "('w \<Rightarrow> (thrown + 'a) \<times> 'w) \<Rightarrow> (thrown \<Rightarrow> 'w \<Rightarrow> (thrown + 'a) \<times> 'w) \<Rightarrow> 'w \<Rightarrow> (thrown + 'a) \<times> 'w" where
  "try_catch body handler w = (case body w of (Inl e, w') \<Rightarrow> handler e w' | (Inr x, w') \<Rightarrow> (Inr x, w'))"

text \<open>Awaiting a repository method: the call is logged and the backend moves on.\<close>

definition call_repo ::
  "('q \<Rightarrow> 'c) \<Rightarrow> ('q \<Rightarrow> 's \<Rightarrow> (thrown + 'a) \<times> 's) \<Rightarrow> 'q \<Rightarrow> ('s, 'c) world \<Rightarrow>
   (thrown + 'a) \<times> ('s, 'c) world" where
  "call_repo tag method request w =
     (let (outcome, s') = method request (backend w)
      in (outcome, w\<lparr>backend := s', calls := calls w @ [tag request]\<rparr>))"

text \<open>The entity operations with their readings taken from the world, in the order in which
  the source evaluates them.\<close>

definition createUserMessage_io ::
  "string \<Rightarrow> string option \<Rightarrow> ('s, 'c) world \<Rightarrow> (thrown + Message) \<times> ('s, 'c) world" where
  "createUserMessage_io content conversationId w =
     (let (t_id, w1) = read_clock w; (rnd, w2) = random_suffix w1; (t_now, w3) = read_clock w2
      in (createUserMessage t_id rnd t_now content conversationId, w3))"

definition createAssistantMessage_io ::
  "string \<Rightarrow> string option \<Rightarrow> string list option \<Rightarrow> string list option \<Rightarrow> string list option \<Rightarrow>
   ('s, 'c) world \<Rightarrow> (thrown + Message) \<times> ('s, 'c) world" where
  "createAssistantMessage_io content conversationId spiritualThemes suggestedActions relatedTopics w =
     (let (t_id, w1) = read_clock w; (rnd, w2) = random_suffix w1; (t_now, w3) = read_clock w2
      in (createAssistantMessage t_id rnd t_now content conversationId spiritualThemes
            suggestedActions relatedTopics, w3))"

definition addMessage_io ::
  "Conversation \<Rightarrow> Message \<Rightarrow> ('s, 'c) world \<Rightarrow> (thrown + Conversation) \<times> ('s, 'c) world" where
  "addMessage_io c message w = (let (now, w1) = read_clock w in (addMessage now c message, w1))"

definition createNew_io ::
  "string option \<Rightarrow> ('s, 'c) world \<Rightarrow> (thrown + Conversation) \<times> ('s, 'c) world" where
  "createNew_io userId w =
     (let (t_now, w1) = read_clock w; (t_id, w2) = read_clock w1; (rnd, w3) = random_suffix w2
      in (createNew t_now t_id rnd userId, w3))"

definition createWithFirstMessage_io ::
  "Message \<Rightarrow> string option \<Rightarrow> ('s, 'c) world \<Rightarrow> (thrown + Conversation) \<times> ('s, 'c) world" where
  "createWithFirstMessage_io message userId =
     bind_io (createNew_io userId) (\<lambda>conversation. addMessage_io conversation message)"

subsection \<open>The AI repository interface\<close>

record UserContext =
  uc_spiritualInterests :: "string list option"
  uc_experienceLevel :: "string option"
  uc_preferredPractices :: "string list option"

record ChatContext =
  ctx_userProfile :: "UserContext option"
  ctx_location :: "string option"
  ctx_timeOfDay :: "string option"

record ChatRequest =
  cr_message :: string
  cr_conversationId :: "string option"
  cr_context :: "ChatContext option"

record ChatResponse =
  resp_message :: string
  resp_conversationId :: string
  resp_spiritualThemes :: "string list"
  resp_suggestedActions :: "string list option"
  resp_relatedTopics :: "string list option"
  resp_timestamp :: date

record GuidanceUserContext =
  g_spiritualGoals :: "string list option"
  g_currentChallenges :: "string list option"
  g_experienceLevel :: "string option"
  g_preferredPractices :: "string list option"
  g_timeAvailable :: "string option"
  g_previousExperiences :: "string list option"

record SpiritualGuidanceRequest =
  sg_topic :: string
  sg_userContext :: "GuidanceUserContext option"

record BirthInfo =
  dateOfBirth :: string
  timeOfBirth :: string
  placeOfBirth :: string
  timezone :: "string option"

record AstrologyRequest =
  ar_birthInfo :: BirthInfo
  ar_readingType :: string
  ar_partnerBirthInfo :: "BirthInfo option"

text \<open>A \<^verbatim>\<open>number\<close>: a finite value (every finite double is a rational), NaN or an
  infinity.\<close>

datatype number = Finite rat | NaN | PosInfinity | NegInfinity

definition Number_isInteger :: "number \<Rightarrow> bool" where
  "Number_isInteger x = (case x of Finite q \<Rightarrow> of_int \<lfloor>q\<rfloor> = q | _ \<Rightarrow> False)"

fun number_less :: "number \<Rightarrow> number \<Rightarrow> bool" where
  "number_less (Finite a) (Finite b) = (a < b)"
| "number_less (Finite a) PosInfinity = True"
| "number_less NegInfinity (Finite b) = True"
| "number_less NegInfinity PosInfinity = True"
| "number_less _ _ = False"

text \<open>The methods of \<^verbatim>\<open>IAiRepository\<close> that the use cases call. The guidance and reading
  payloads are passed through untouched, so their types are parameters.\<close>

record ('s, 'g, 'r) IAiRepository =
  sendChatMessage :: "ChatRequest \<Rightarrow> 's \<Rightarrow> (thrown + ChatResponse) \<times> 's"
  requestSpiritualGuidance :: "SpiritualGuidanceRequest \<Rightarrow> 's \<Rightarrow> (thrown + 'g) \<times> 's"
  requestAstrologyReading :: "AstrologyRequest \<Rightarrow> 's \<Rightarrow> (thrown + 'r) \<times> 's"
  saveConversation :: "Conversation \<Rightarrow> 's \<Rightarrow> (thrown + unit) \<times> 's"
  loadConversations :: "number option \<Rightarrow> 's \<Rightarrow> (thrown + Conversation list) \<times> 's"

datatype ai_call =
    SendChatMessageCall ChatRequest
  | RequestSpiritualGuidanceCall SpiritualGuidanceRequest
  | RequestAstrologyReadingCall AstrologyRequest
  | SaveConversationCall Conversation
  | LoadConversationsCall "number option"

section \<open>SendChatMessage\<close>

record SendChatMessageRequest =
  req_message :: string
  req_conversation :: "Conversation option"
  req_userContext :: "UserContext option"
  req_location :: "string option"
  req_timeOfDay :: "string option"

record SendChatMessageResult =
  scm_success :: bool
  scm_updatedConversation :: "Conversation option"
  scm_assistantMessage :: "Message option"
  scm_error :: "string option"

definition SendChatMessage_validateRequest :: "SendChatMessageRequest \<Rightarrow> string option" where
  "SendChatMessage_validateRequest request =
    (if trim (req_message request) = [] then Some ''Message cannot be empty''
     else if length (req_message request) > 2000
     then Some ''Message too long. Please keep messages under 2000 characters.''
     else if (case req_userContext request of
                None \<Rightarrow> False
              | Some userContext \<Rightarrow>
                  truthy (uc_experienceLevel userContext) \<and>
                  uc_experienceLevel userContext \<notin> set (map Some [''beginner'', ''intermediate'', ''advanced'']))
     then Some ''Invalid experience level. Must be beginner, intermediate, or advanced.''
     else None)"

definition SendChatMessage_handleError :: "thrown \<Rightarrow> string" where
  "SendChatMessage_handleError error =
    (case error of
       Error message \<Rightarrow>
         if str_includes message ''Authentication required''
         then ''Authentication required. Please log in.''
         else if str_includes message ''Message too long''
         then ''Message too long. Please keep messages under 2000 characters.''
         else if str_includes message ''temporarily unavailable''
         then ''AI service is temporarily unavailable. Please try again later.''
         else if str_includes message ''I can only provide'' then message
         else if str_includes message ''Invalid request data''
         then ''Invalid request. Please check your input and try again.''
         else message
     | NonError \<Rightarrow> ''An unexpected error occurred. Please try again.'')"

text \<open>The body of the \<^verbatim>\<open>try\<close> block of \<^verbatim>\<open>execute\<close>.\<close>

definition SendChatMessage_try ::
  "('s, 'g, 'r) IAiRepository \<Rightarrow> SendChatMessageRequest \<Rightarrow> ('s, ai_call) world \<Rightarrow>
   (thrown + SendChatMessageResult) \<times> ('s, ai_call) world" where
  "SendChatMessage_try repo request =
    (case SendChatMessage_validateRequest request of
       Some validationError \<Rightarrow>
         return_io \<lparr>scm_success = False, scm_updatedConversation = None,
                    scm_assistantMessage = None, scm_error = Some validationError\<rparr>
     | None \<Rightarrow>
         bind_io (createUserMessage_io (req_message request)
                    (map_option c_id (req_conversation request)))
          (\<lambda>userMessage.
         bind_io (case req_conversation request of
                    Some conversation \<Rightarrow> addMessage_io conversation userMessage
                  | None \<Rightarrow> createWithFirstMessage_io userMessage None)
          (\<lambda>currentConversation.
         bind_io (call_repo SendChatMessageCall (sendChatMessage repo)
                    \<lparr>cr_message = req_message request,
                     cr_conversationId = Some (c_id currentConversation),
                     cr_context = Some \<lparr>ctx_userProfile = req_userContext request,
                                        ctx_location = req_location request,
                                        ctx_timeOfDay = req_timeOfDay request\<rparr>\<rparr>)
          (\<lambda>chatResponse.
         bind_io (createAssistantMessage_io (resp_message chatResponse)
                    (Some (resp_conversationId chatResponse))
                    (Some (resp_spiritualThemes chatResponse))
                    (resp_suggestedActions chatResponse)
                    (resp_relatedTopics chatResponse))
          (\<lambda>assistantMessage.
         bind_io (addMessage_io currentConversation assistantMessage)
          (\<lambda>finalConversation.
         bind_io (call_repo SaveConversationCall (saveConversation repo) finalConversation)
          (\<lambda>_.
         return_io \<lparr>scm_success = True, scm_updatedConversation = Some finalConversation,
                    scm_assistantMessage = Some assistantMessage, scm_error = None\<rparr>)))))))"

definition SendChatMessage_execute ::
  "('s, 'g, 'r) IAiRepository \<Rightarrow> SendChatMessageRequest \<Rightarrow> ('s, ai_call) world \<Rightarrow>
   (thrown + SendChatMessageResult) \<times> ('s, ai_call) world" where
  "SendChatMessage_execute repo request =
     try_catch (SendChatMessage_try repo request)
       (\<lambda>error. return_io \<lparr>scm_success = False, scm_updatedConversation = None,
                            scm_assistantMessage = None,
                            scm_error = Some (SendChatMessage_handleError error)\<rparr>)"

section \<open>LoadConversations\<close>

record LoadConversationsRequest =
  lc_limit :: "number option"

record LoadConversationsResult =
  lc_success :: bool
  lc_conversations :: "Conversation list option"
  lc_error :: "string option"

definition LoadConversations_validateRequest :: "LoadConversationsRequest \<Rightarrow> string option" where
  "LoadConversations_validateRequest request =
    (case lc_limit request of
       None \<Rightarrow> None
     | Some limit \<Rightarrow>
         if \<not> Number_isInteger limit \<or> number_less limit (Finite 1)
         then Some ''Limit must be a positive integer''
         else if number_less (Finite 100) limit then Some ''Limit cannot exceed 100 conversations''
         else None)"

definition LoadConversations_handleError :: "thrown \<Rightarrow> string" where
  "LoadConversations_handleError error =
    (case error of
       Error message \<Rightarrow>
         if str_includes message ''Failed to load conversations''
         then ''Failed to load conversations. Please try again.''
         else message
     | NonError \<Rightarrow> ''An unexpected error occurred while loading conversations.'')"

definition LoadConversations_try ::
  "('s, 'g, 'r) IAiRepository \<Rightarrow> LoadConversationsRequest \<Rightarrow> ('s, ai_call) world \<Rightarrow>
   (thrown + LoadConversationsResult) \<times> ('s, ai_call) world" where
  "LoadConversations_try repo request =
    (case LoadConversations_validateRequest request of
       Some validationError \<Rightarrow>
         return_io \<lparr>lc_success = False, lc_conversations = None, lc_error = Some validationError\<rparr>
     | None \<Rightarrow>
         bind_io (call_repo LoadConversationsCall (loadConversations repo) (lc_limit request))
          (\<lambda>conversations.
         return_io \<lparr>lc_success = True, lc_conversations = Some conversations, lc_error = None\<rparr>))"

definition LoadConversations_execute ::
  "('s, 'g, 'r) IAiRepository \<Rightarrow> LoadConversationsRequest \<Rightarrow> ('s, ai_call) world \<Rightarrow>
   (thrown + LoadConversationsResult) \<times> ('s, ai_call) world" where
  "LoadConversations_execute repo request =
     try_catch (LoadConversations_try repo request)
       (\<lambda>error. return_io \<lparr>lc_success = False, lc_conversations = None,
                            lc_error = Some (LoadConversations_handleError error)\<rparr>)"

section \<open>RequestSpiritualGuidance\<close>

record RequestSpiritualGuidanceRequest =
  rg_topic :: string
  rg_userContext :: "GuidanceUserContext option"

record 'g RequestSpiritualGuidanceResult =
  rg_success :: bool
  rg_guidance :: "'g option"
  rg_error :: "string option"

text \<open>The local function \<^verbatim>\<open>validateStringArray\<close>: the loop returns at the first item that
  fails a check.\<close>

fun validateStringArray :: "string list \<Rightarrow> string \<Rightarrow> nat \<Rightarrow> string option" where
  "validateStringArray [] name maxLength = None"
| "validateStringArray (item # arr) name maxLength =
     (if trim item = [] then Some (''All '' @ name @ '' must be non-empty strings'')
      else if length item > maxLength
      then Some (name @ '' items must be under '' @ number_to_string (int maxLength) @ '' characters'')
      else validateStringArray arr name maxLength)"

definition RequestSpiritualGuidance_validateRequest ::
  "RequestSpiritualGuidanceRequest \<Rightarrow> string option" where
  "RequestSpiritualGuidance_validateRequest request =
    (if trim (rg_topic request) = [] then Some ''Topic cannot be empty''
     else if length (rg_topic request) > 200
     then Some ''Topic too long. Please keep topics under 200 characters.''
     else (case rg_userContext request of
        None \<Rightarrow> Some ''User context is required''
      | Some userContext \<Rightarrow>
        if \<not> truthy (g_experienceLevel userContext) \<or>
           g_experienceLevel userContext \<notin> set (map Some [''beginner'', ''intermediate'', ''advanced''])
        then Some ''Invalid experience level. Must be beginner, intermediate, or advanced.''
        else (case g_spiritualGoals userContext of
           None \<Rightarrow> Some ''At least one spiritual goal is required''
         | Some spiritualGoals \<Rightarrow>
           if length spiritualGoals = 0 then Some ''At least one spiritual goal is required''
           else (case g_currentChallenges userContext of
              None \<Rightarrow> Some ''At least one current challenge is required''
            | Some currentChallenges \<Rightarrow>
              if length currentChallenges = 0 then Some ''At least one current challenge is required''
              else (case g_preferredPractices userContext of
                 None \<Rightarrow> Some ''At least one preferred practice is required''
               | Some preferredPractices \<Rightarrow>
                 if length preferredPractices = 0
                 then Some ''At least one preferred practice is required''
                 else (case g_previousExperiences userContext of
                    None \<Rightarrow> Some ''Previous experiences must be an array''
                  | Some previousExperiences \<Rightarrow>
                    if length spiritualGoals > 10
                    then Some ''Too many spiritual goals. Please limit to 10 or fewer.''
                    else if length currentChallenges > 10
                    then Some ''Too many challenges. Please limit to 10 or fewer.''
                    else if length preferredPractices > 15
                    then Some ''Too many preferred practices. Please limit to 15 or fewer.''
                    else if length previousExperiences > 20
                    then Some ''Too many previous experiences. Please limit to 20 or fewer.''
                    else (case validateStringArray spiritualGoals ''spiritual goals'' 100 of
                       Some goalValidation \<Rightarrow> Some goalValidation
                     | None \<Rightarrow>
                      (case validateStringArray currentChallenges ''challenges'' 100 of
                         Some challengeValidation \<Rightarrow> Some challengeValidation
                       | None \<Rightarrow>
                        (case validateStringArray preferredPractices ''practices'' 50 of
                           Some practiceValidation \<Rightarrow> Some practiceValidation
                         | None \<Rightarrow>
                          (case validateStringArray previousExperiences ''experiences'' 200 of
                             Some experienceValidation \<Rightarrow> Some experienceValidation
                           | None \<Rightarrow>
                              if (case g_timeAvailable userContext of
                                    None \<Rightarrow> False
                                  | Some timeAvailable \<Rightarrow>
                                      timeAvailable \<noteq> [] \<and> length timeAvailable > 50)
                              then Some ''Time available description must be under 50 characters''
                              else None))))))))))"

definition RequestSpiritualGuidance_handleError :: "thrown \<Rightarrow> string" where
  "RequestSpiritualGuidance_handleError error =
    (case error of
       Error message \<Rightarrow>
         if str_includes message ''Authentication required''
         then ''Authentication required. Please log in.''
         else if str_includes message ''Access denied''
         then ''Access denied. Please check your permissions.''
         else if str_includes message ''Too many requests''
         then ''Too many requests. Please try again later.''
         else if str_includes message ''temporarily unavailable''
         then ''Spiritual guidance service is temporarily unavailable. Please try again later.''
         else if str_includes message ''Invalid request data''
         then ''Invalid request. Please check your input and try again.''
         else if str_includes message ''Network connection failed''
         then ''Network connection failed. Please check your internet connection.''
         else message
     | NonError \<Rightarrow> ''An unexpected error occurred. Please try again.'')"

definition RequestSpiritualGuidance_try ::
  "('s, 'g, 'r) IAiRepository \<Rightarrow> RequestSpiritualGuidanceRequest \<Rightarrow> ('s, ai_call) world \<Rightarrow>
   (thrown + 'g RequestSpiritualGuidanceResult) \<times> ('s, ai_call) world" where
  "RequestSpiritualGuidance_try repo request =
    (case RequestSpiritualGuidance_validateRequest request of
       Some validationError \<Rightarrow>
         return_io \<lparr>rg_success = False, rg_guidance = None, rg_error = Some validationError\<rparr>
     | None \<Rightarrow>
         bind_io (call_repo RequestSpiritualGuidanceCall (requestSpiritualGuidance repo)
                    \<lparr>sg_topic = trim (rg_topic request),
                     sg_userContext = rg_userContext request\<rparr>)
          (\<lambda>guidance.
         return_io \<lparr>rg_success = True, rg_guidance = Some guidance, rg_error = None\<rparr>))"

definition RequestSpiritualGuidance_execute ::
  "('s, 'g, 'r) IAiRepository \<Rightarrow> RequestSpiritualGuidanceRequest \<Rightarrow> ('s, ai_call) world \<Rightarrow>
   (thrown + 'g RequestSpiritualGuidanceResult) \<times> ('s, ai_call) world" where
  "RequestSpiritualGuidance_execute repo request =
     try_catch (RequestSpiritualGuidance_try repo request)
       (\<lambda>error. return_io \<lparr>rg_success = False, rg_guidance = None,
                            rg_error = Some (RequestSpiritualGuidance_handleError error)\<rparr>)"

section \<open>RequestAstrologyReading\<close>

record RequestAstrologyReadingRequest =
  rar_birthInfo :: BirthInfo
  rar_readingType :: string
  rar_partnerBirthInfo :: "BirthInfo option"

record 'r RequestAstrologyReadingResult =
  rar_success :: bool
  rar_reading :: "'r option"
  rar_error :: "string option"

text \<open>The regular expressions of \<^verbatim>\<open>validateBirthInfo\<close>, each as the test it performs:
  \<^verbatim>\<open>/^\d{4}-\d{2}-\d{2}$/\<close>, \<^verbatim>\<open>/^([01]\d|2[0-3]):([0-5]\d)$/\<close> and
  \<^verbatim>\<open>/^[A-Za-z_+\-0-9\/]+$/\<close>.\<close>

definition isDigit :: "char \<Rightarrow> bool" where
  "isDigit c = (48 \<le> (of_char c :: nat) \<and> (of_char c :: nat) \<le> 57)"

definition isLetter :: "char \<Rightarrow> bool" where
  "isLetter c = ((65 \<le> (of_char c :: nat) \<and> (of_char c :: nat) \<le> 90) \<or>
                 (97 \<le> (of_char c :: nat) \<and> (of_char c :: nat) \<le> 122))"

definition dateRegex_test :: "string \<Rightarrow> bool" where
  "dateRegex_test s =
     (length s = 10 \<and> list_all isDigit (take 4 s) \<and> s ! 4 = CHR ''-'' \<and>
      list_all isDigit (take 2 (drop 5 s)) \<and> s ! 7 = CHR ''-'' \<and> list_all isDigit (drop 8 s))"

definition timeRegex_test :: "string \<Rightarrow> bool" where
  "timeRegex_test s =
     (length s = 5 \<and>
      ((s ! 0 \<in> set ''01'' \<and> isDigit (s ! 1)) \<or> (s ! 0 = CHR ''2'' \<and> s ! 1 \<in> set ''0123'')) \<and>
      s ! 2 = CHR '':'' \<and> s ! 3 \<in> set ''012345'' \<and> isDigit (s ! 4))"

definition timezoneRegex_test :: "string \<Rightarrow> bool" where
  "timezoneRegex_test s =
     (s \<noteq> [] \<and> list_all (\<lambda>c. isLetter c \<or> isDigit c \<or> c \<in> set ''_+-/'') s)"

text \<open>\<^verbatim>\<open>Array.prototype.join\<close>.\<close>

fun join :: "string \<Rightarrow> string list \<Rightarrow> string" where
  "join sep [] = []"
| "join sep [x] = x"
| "join sep (x # y # xs) = x @ sep @ join sep (y # xs)"

definition allowedReadingTypes :: "string list" where
  "allowedReadingTypes =
     [''natal_chart'', ''daily_horoscope'', ''compatibility'', ''transit'', ''solar_return'',
      ''lunar_return'', ''composite_chart'', ''synastry'']"

definition partnerReadingTypes :: "string list" where
  "partnerReadingTypes = [''compatibility'', ''composite_chart'', ''synastry'']"

text \<open>
  \<^verbatim>\<open>validateBirthInfo\<close>. The runtime's parser behind \<^verbatim>\<open>new Date(string)\<close> is the
  parameter \<open>parse\<close>; \<^verbatim>\<open>new Date()\<close> is read from the clock, at the point where the source
  reads it.
\<close>

definition validateBirthInfo ::
  "(string \<Rightarrow> date) \<Rightarrow> BirthInfo \<Rightarrow> string \<Rightarrow> ('s, 'c) world \<Rightarrow> string option \<times> ('s, 'c) world" where
  "validateBirthInfo parse birthInfo prefix' w =
    (if trim (dateOfBirth birthInfo) = [] then (Some (prefix' @ '' date of birth is required''), w)
     else if \<not> dateRegex_test (dateOfBirth birthInfo)
     then (Some (prefix' @ '' date of birth must be in YYYY-MM-DD format''), w)
     else if parse (dateOfBirth birthInfo) = InvalidDate
     then (Some (prefix' @ '' date of birth is not a valid date''), w)
     else (let (now, w1) = read_clock w in
       (if date_less (Date now) (parse (dateOfBirth birthInfo))
        then Some (prefix' @ '' date of birth cannot be in the future'')
        else if date_less (parse (dateOfBirth birthInfo)) (parse ''1900-01-01'')
        then Some (prefix' @ '' date of birth cannot be before 1900'')
        else if trim (timeOfBirth birthInfo) = []
        then Some (prefix' @ '' time of birth is required'')
        else if \<not> timeRegex_test (timeOfBirth birthInfo)
        then Some (prefix' @ '' time of birth must be in HH:MM format (24-hour)'')
        else if trim (placeOfBirth birthInfo) = []
        then Some (prefix' @ '' place of birth is required'')
        else if length (placeOfBirth birthInfo) < 2
        then Some (prefix' @ '' place of birth must be at least 2 characters'')
        else if length (placeOfBirth birthInfo) > 100
        then Some (prefix' @ '' place of birth must be under 100 characters'')
        else (case timezone birthInfo of
           None \<Rightarrow> None
         | Some tz \<Rightarrow>
            if tz = [] then None
            else if length tz > 50 then Some (prefix' @ '' timezone must be under 50 characters'')
            else if \<not> timezoneRegex_test tz then Some (prefix' @ '' timezone format is invalid'')
            else None), w1)))"

definition RequestAstrologyReading_validateRequest ::
  "(string \<Rightarrow> date) \<Rightarrow> RequestAstrologyReadingRequest \<Rightarrow> ('s, 'c) world \<Rightarrow>
   string option \<times> ('s, 'c) world" where
  "RequestAstrologyReading_validateRequest parse request w =
    (case validateBirthInfo parse (rar_birthInfo request) ''Your'' w of
       (Some birthValidation, w1) \<Rightarrow> (Some birthValidation, w1)
     | (None, w1) \<Rightarrow>
        if trim (rar_readingType request) = [] then (Some ''Reading type is required'', w1)
        else if length (rar_readingType request) > 100
        then (Some ''Reading type must be under 100 characters'', w1)
        else if trim (rar_readingType request) \<notin> set allowedReadingTypes
        then (Some (''Invalid reading type. Allowed types: '' @ join '', '' allowedReadingTypes), w1)
        else (case rar_partnerBirthInfo request of
           Some partnerBirthInfo \<Rightarrow>
             if trim (rar_readingType request) \<notin> set partnerReadingTypes
             then (Some (''Partner birth info is not needed for '' @ rar_readingType request
                         @ '' reading''), w1)
             else validateBirthInfo parse partnerBirthInfo (''Partner'' @ [CHR 0x27] @ ''s'') w1
         | None \<Rightarrow>
             if trim (rar_readingType request) \<in> set partnerReadingTypes
             then (Some (''Partner birth information is required for '' @ rar_readingType request
                         @ '' reading''), w1)
             else (None, w1)))"

definition RequestAstrologyReading_handleError :: "thrown \<Rightarrow> string" where
  "RequestAstrologyReading_handleError error =
    (case error of
       Error message \<Rightarrow>
         if str_includes message ''Authentication required''
         then ''Authentication required. Please log in.''
         else if str_includes message ''Access denied''
         then ''Access denied. Please check your permissions.''
         else if str_includes message ''Too many requests''
         then ''Too many requests. Please try again later.''
         else if str_includes message ''temporarily unavailable''
         then ''Astrology service is temporarily unavailable. Please try again later.''
         else if str_includes message ''Invalid birth data''
         then ''Invalid birth information. Please check your date, time, and location.''
         else if str_includes message ''Invalid request data''
         then ''Invalid request. Please check your input and try again.''
         else if str_includes message ''Network connection failed''
         then ''Network connection failed. Please check your internet connection.''
         else message
     | NonError \<Rightarrow> ''An unexpected error occurred. Please try again.'')"

definition RequestAstrologyReading_try ::
  "(string \<Rightarrow> date) \<Rightarrow> ('s, 'g, 'r) IAiRepository \<Rightarrow> RequestAstrologyReadingRequest \<Rightarrow>
   ('s, ai_call) world \<Rightarrow> (thrown + 'r RequestAstrologyReadingResult) \<times> ('s, ai_call) world" where
  "RequestAstrologyReading_try parse repo request w =
    (case RequestAstrologyReading_validateRequest parse request w of
       (Some validationError, w1) \<Rightarrow>
         return_io \<lparr>rar_success = False, rar_reading = None, rar_error = Some validationError\<rparr> w1
     | (None, w1) \<Rightarrow>
         bind_io (call_repo RequestAstrologyReadingCall (requestAstrologyReading repo)
                    \<lparr>ar_birthInfo = (rar_birthInfo request)
                        \<lparr>placeOfBirth := trim (placeOfBirth (rar_birthInfo request))\<rparr>,
                     ar_readingType = trim (rar_readingType request),
                     ar_partnerBirthInfo =
                       (case rar_partnerBirthInfo request of
                          Some partner \<Rightarrow>
                            Some \<lparr>dateOfBirth = dateOfBirth partner,
                                  timeOfBirth = timeOfBirth partner,
                                  placeOfBirth = trim (placeOfBirth partner),
                                  timezone = None\<rparr>
                        | None \<Rightarrow> None)\<rparr>)
          (\<lambda>reading.
         return_io \<lparr>rar_success = True, rar_reading = Some reading, rar_error = None\<rparr>) w1)"

definition RequestAstrologyReading_execute ::
  "(string \<Rightarrow> date) \<Rightarrow> ('s, 'g, 'r) IAiRepository \<Rightarrow> RequestAstrologyReadingRequest \<Rightarrow>
   ('s, ai_call) world \<Rightarrow> (thrown + 'r RequestAstrologyReadingResult) \<times> ('s, ai_call) world" where
  "RequestAstrologyReading_execute parse repo request =
     try_catch (RequestAstrologyReading_try parse repo request)
       (\<lambda>error. return_io \<lparr>rar_success = False, rar_reading = None,
                            rar_error = Some (RequestAstrologyReading_handleError error)\<rparr>)"

section \<open>LoginUser and RegisterUser\<close>

record LoginCredentials =
  lg_email :: string
  lg_password :: string

record RegisterData =
  rd_email :: string
  rd_password :: string
  rd_firstName :: string
  rd_lastName :: string

record AuthTokens =
  accessToken :: string
  refreshToken :: string

record 'u AuthResult =
  auth_user :: 'u
  auth_tokens :: AuthTokens

text \<open>The methods of \<^verbatim>\<open>IAuthRepository\<close> that the two use cases call; the user entity is
  passed through untouched, so its type is a parameter.\<close>

record ('s, 'u) IAuthRepository =
  login :: "LoginCredentials \<Rightarrow> 's \<Rightarrow> (thrown + 'u AuthResult) \<times> 's"
  register :: "RegisterData \<Rightarrow> 's \<Rightarrow> (thrown + 'u AuthResult) \<times> 's"
  storeTokens :: "AuthTokens \<Rightarrow> 's \<Rightarrow> (thrown + unit) \<times> 's"

datatype auth_call = LoginCall LoginCredentials | RegisterCall RegisterData | StoreTokensCall AuthTokens

record 'u LoginResult =
  lg_isSuccess :: bool
  lg_user :: "'u option"
  lg_tokens :: "AuthTokens option"
  lg_error :: "string option"

record 'u RegisterResult =
  rd_isSuccess :: bool
  rd_user :: "'u option"
  rd_tokens :: "AuthTokens option"
  rd_error :: "string option"

text \<open>
  \<^verbatim>\<open>/^[^\s@]+@[^\s@]+\.[^\s@]+$/\<close>: a run of characters other than white space and
  \<^verbatim>\<open>@\<close>, then \<^verbatim>\<open>@\<close>, then only such characters to the end, among them a dot that is
  neither the first nor the last of them.
\<close>

definition isPlain :: "char \<Rightarrow> bool" where
  "isPlain c = (\<not> isWhiteSpace c \<and> c \<noteq> CHR ''@'')"

definition emailRegex_test :: "string \<Rightarrow> bool" where
  "emailRegex_test s =
     (takeWhile isPlain s \<noteq> [] \<and>
      (case dropWhile isPlain s of
         [] \<Rightarrow> False
       | c # domain \<Rightarrow>
           c = CHR ''@'' \<and> list_all isPlain domain \<and> CHR ''.'' \<in> set (butlast (tl domain))))"

text \<open>\<^verbatim>\<open>/[A-Z]/\<close> and the class of special characters of the password check.\<close>

definition hasUppercase :: "string \<Rightarrow> bool" where
  "hasUppercase s = list_ex (\<lambda>c. 65 \<le> (of_char c :: nat) \<and> (of_char c :: nat) \<le> 90) s"

definition specialCharacters :: string where
  \<open>specialCharacters = ''!@#$%^&*(),.?":{}|<>~`-_+=[]'' @ [CHR 0x5C] @ '';'' @ [CHR 0x27]\<close>

definition hasSpecialCharacter :: "string \<Rightarrow> bool" where
  "hasSpecialCharacter s = list_ex (\<lambda>c. c \<in> set specialCharacters) s"

definition LoginUser_try ::
  "('s, 'u) IAuthRepository \<Rightarrow> LoginCredentials \<Rightarrow> ('s, auth_call) world \<Rightarrow>
   (thrown + 'u LoginResult) \<times> ('s, auth_call) world" where
  "LoginUser_try repo credentials =
    (if \<not> emailRegex_test (lg_email credentials)
     then return_io \<lparr>lg_isSuccess = False, lg_user = None, lg_tokens = None,
                     lg_error = Some ''Invalid email format''\<rparr>
     else if length (lg_password credentials) < 8
     then return_io \<lparr>lg_isSuccess = False, lg_user = None, lg_tokens = None,
                     lg_error = Some ''Password must be at least 8 characters long''\<rparr>
     else if \<not> hasUppercase (lg_password credentials)
     then return_io \<lparr>lg_isSuccess = False, lg_user = None, lg_tokens = None,
                     lg_error = Some ''Password must contain at least one uppercase letter''\<rparr>
     else if \<not> hasSpecialCharacter (lg_password credentials)
     then return_io \<lparr>lg_isSuccess = False, lg_user = None, lg_tokens = None,
                     lg_error = Some ''Password must contain at least one special character''\<rparr>
     else
       bind_io (call_repo LoginCall (login repo) credentials)
        (\<lambda>result.
       bind_io (call_repo StoreTokensCall (storeTokens repo) (auth_tokens result))
        (\<lambda>_.
       return_io \<lparr>lg_isSuccess = True, lg_user = Some (auth_user result),
                  lg_tokens = Some (auth_tokens result), lg_error = None\<rparr>)))"

definition LoginUser_execute ::
  "('s, 'u) IAuthRepository \<Rightarrow> LoginCredentials \<Rightarrow> ('s, auth_call) world \<Rightarrow>
   (thrown + 'u LoginResult) \<times> ('s, auth_call) world" where
  "LoginUser_execute repo credentials =
     try_catch (LoginUser_try repo credentials)
       (\<lambda>error.
          if error = Error ''Invalid credentials''
          then return_io \<lparr>lg_isSuccess = False, lg_user = None, lg_tokens = None,
                          lg_error = Some ''Invalid credentials''\<rparr>
          else return_io \<lparr>lg_isSuccess = False, lg_user = None, lg_tokens = None,
                          lg_error = Some ''Login failed. Please try again.''\<rparr>)"

definition RegisterUser_try ::
  "('s, 'u) IAuthRepository \<Rightarrow> RegisterData \<Rightarrow> ('s, auth_call) world \<Rightarrow>
   (thrown + 'u RegisterResult) \<times> ('s, auth_call) world" where
  "RegisterUser_try repo data =
    (if \<not> emailRegex_test (rd_email data)
     then return_io \<lparr>rd_isSuccess = False, rd_user = None, rd_tokens = None,
                     rd_error = Some ''Invalid email format''\<rparr>
     else if length (rd_password data) < 8
     then return_io \<lparr>rd_isSuccess = False, rd_user = None, rd_tokens = None,
                     rd_error = Some ''Password must be at least 8 characters long''\<rparr>
     else if \<not> hasUppercase (rd_password data)
     then return_io \<lparr>rd_isSuccess = False, rd_user = None, rd_tokens = None,
                     rd_error = Some ''Password must contain at least one uppercase letter''\<rparr>
     else if \<not> hasSpecialCharacter (rd_password data)
     then return_io \<lparr>rd_isSuccess = False, rd_user = None, rd_tokens = None,
                     rd_error = Some ''Password must contain at least one special character''\<rparr>
     else if trim (rd_firstName data) = []
     then return_io \<lparr>rd_isSuccess = False, rd_user = None, rd_tokens = None,
                     rd_error = Some ''First name is required''\<rparr>
     else if trim (rd_lastName data) = []
     then return_io \<lparr>rd_isSuccess = False, rd_user = None, rd_tokens = None,
                     rd_error = Some ''Last name is required''\<rparr>
     else
       bind_io (call_repo RegisterCall (register repo) data)
        (\<lambda>result.
       bind_io (call_repo StoreTokensCall (storeTokens repo) (auth_tokens result))
        (\<lambda>_.
       return_io \<lparr>rd_isSuccess = True, rd_user = Some (auth_user result),
                  rd_tokens = Some (auth_tokens result), rd_error = None\<rparr>)))"

definition RegisterUser_execute ::
  "('s, 'u) IAuthRepository \<Rightarrow> RegisterData \<Rightarrow> ('s, auth_call) world \<Rightarrow>
   (thrown + 'u RegisterResult) \<times> ('s, auth_call) world" where
  "RegisterUser_execute repo data =
     try_catch (RegisterUser_try repo data)
       (\<lambda>error.
          if error = Error ''User already exists''
          then return_io \<lparr>rd_isSuccess = False, rd_user = None, rd_tokens = None,
                          rd_error = Some ''User already exists''\<rparr>
          else return_io \<lparr>rd_isSuccess = False, rd_user = None, rd_tokens = None,
                          rd_error = Some (case error of
                                             Error message \<Rightarrow> message
                                           | NonError \<Rightarrow> ''Registration failed. Please try again.'')\<rparr>)"

section \<open>Sample collaborators for concrete runs\<close>

text \<open>A world whose clock starts in November 2023 and advances by one millisecond per reading,
  whose random suffix is always the same, and whose backend counts the calls it has served.\<close>

definition sample_world :: "(nat, 'c) world" where
  "sample_world = \<lparr>clock = (\<lambda>n. 1700000000000 + int n), ticks = 0, random = (\<lambda>n. ''k3x9''),
                   draws = 0, backend = 0, calls = []\<rparr>"

text \<open>An AI repository that answers every chat request in the conversation it was asked about,
  lists no stored conversations, and whose \<^verbatim>\<open>sendChatMessage\<close> and
  \<^verbatim>\<open>saveConversation\<close> reject with the given thrown values when there are any.\<close>

definition sample_repository ::
  "thrown option \<Rightarrow> thrown option \<Rightarrow> (nat, string, string) IAiRepository" where
  "sample_repository chat_failure save_failure =
     \<lparr>sendChatMessage = (\<lambda>request s.
          (case chat_failure of
             Some t \<Rightarrow> Inl t
           | None \<Rightarrow>
               Inr \<lparr>resp_message = ''Breathe slowly.'',
                    resp_conversationId =
                      (case cr_conversationId request of Some i \<Rightarrow> i | None \<Rightarrow> []),
                    resp_spiritualThemes = [''meditation''],
                    resp_suggestedActions = None,
                    resp_relatedTopics = None,
                    resp_timestamp = Date 5000\<rparr>, Suc s)),
      requestSpiritualGuidance = (\<lambda>request s. (Inr ''guidance'', Suc s)),
      requestAstrologyReading = (\<lambda>request s. (Inr ''reading'', Suc s)),
      saveConversation = (\<lambda>conversation s.
          (case save_failure of Some t \<Rightarrow> Inl t | None \<Rightarrow> Inr (), Suc s)),
      loadConversations = (\<lambda>limit s. (Inr [], Suc s))\<rparr>"

text \<open>An auth repository that knows one user, and whose \<^verbatim>\<open>login\<close> (and
  \<^verbatim>\<open>register\<close>) and \<^verbatim>\<open>storeTokens\<close> reject with the given thrown values when there
  are any.\<close>

definition sample_auth_repository ::
  "thrown option \<Rightarrow> thrown option \<Rightarrow> (nat, string) IAuthRepository" where
  "sample_auth_repository auth_failure store_failure =
     \<lparr>login = (\<lambda>credentials s.
          (case auth_failure of
             Some t \<Rightarrow> Inl t
           | None \<Rightarrow> Inr \<lparr>auth_user = ''user-123'',
                           auth_tokens = \<lparr>accessToken = ''access'', refreshToken = ''refresh''\<rparr>\<rparr>,
           Suc s)),
      register = (\<lambda>data s.
          (case auth_failure of
             Some t \<Rightarrow> Inl t
           | None \<Rightarrow> Inr \<lparr>auth_user = ''user-123'',
                           auth_tokens = \<lparr>accessToken = ''access'', refreshToken = ''refresh''\<rparr>\<rparr>,
           Suc s)),
      storeTokens = (\<lambda>tokens s.
          (case store_failure of Some t \<Rightarrow> Inl t | None \<Rightarrow> Inr (), Suc s))\<rparr>"

text \<open>A date parser that knows two date-only strings, with the time values the runtime gives
  them (midnight UTC), and takes every other string for an invalid date.\<close>

definition sample_parse :: "string \<Rightarrow> date" where
  "sample_parse s =
     (if s = ''1990-01-15'' then Date 632361600000
      else if s = ''1900-01-01'' then Date (- 2208988800000)
      else InvalidDate)"

section \<open>Properties of the entities\<close>

subsection \<open>Trimming\<close>

lemma trim_Nil_iff: "trim s = [] \<longleftrightarrow> list_all isWhiteSpace s"
proof
  assume "trim s = []"
  then have a: "\<forall>c\<in>set (dropWhile isWhiteSpace s). isWhiteSpace c"
    by (simp add: trim_def)
  have "dropWhile isWhiteSpace s = []"
  proof (rule ccontr)
    assume n: "dropWhile isWhiteSpace s \<noteq> []"
    then have "\<not> isWhiteSpace (hd (dropWhile isWhiteSpace s))" by (rule hd_dropWhile)
    moreover have "hd (dropWhile isWhiteSpace s) \<in> set (dropWhile isWhiteSpace s)"
      using n by (rule hd_in_set)
    ultimately show False using a by blast
  qed
  then show "list_all isWhiteSpace s"
    by (simp add: list_all_iff)
next
  assume "list_all isWhiteSpace s"
  then have "dropWhile isWhiteSpace s = []"
    by (simp add: list_all_iff)
  then show "trim s = []"
    unfolding trim_def by (simp only: rev.simps dropWhile.simps)
qed

lemma length_trim_le: "length (trim s) \<le> length s"
proof -
  have "length (trim s) \<le> length (dropWhile isWhiteSpace s)"
    unfolding trim_def using length_dropWhile_le [of isWhiteSpace "rev (dropWhile isWhiteSpace s)"]
    by simp
  also have "\<dots> \<le> length s"
    by (rule length_dropWhile_le)
  finally show ?thesis .
qed

lemma rev_split: "t = rev (dropWhile P (rev t)) @ rev (takeWhile P (rev t))"
proof -
  have "rev t = takeWhile P (rev t) @ dropWhile P (rev t)"
    by simp
  then have "rev (rev t) = rev (takeWhile P (rev t) @ dropWhile P (rev t))"
    by (rule arg_cong)
  then show ?thesis
    by (simp only: rev_rev_ident rev_append)
qed

text \<open>A string is its trimmed form between two runs of white space.\<close>

lemma trim_decompose:
  "\<exists>pre post. s = pre @ trim s @ post \<and> list_all isWhiteSpace pre \<and> list_all isWhiteSpace post"
proof -
  let ?t = "dropWhile isWhiteSpace s"
  have t: "?t = trim s @ rev (takeWhile isWhiteSpace (rev ?t))"
    unfolding trim_def by (rule rev_split)
  have "s = takeWhile isWhiteSpace s @ ?t"
    by simp
  with t have "s = takeWhile isWhiteSpace s @ trim s @ rev (takeWhile isWhiteSpace (rev ?t))"
    by metis
  moreover have "list_all isWhiteSpace (takeWhile isWhiteSpace s)"
    unfolding list_all_iff by (meson set_takeWhileD)
  moreover have "list_all isWhiteSpace (rev (takeWhile isWhiteSpace (rev ?t)))"
    unfolding list_all_iff set_rev by (meson set_takeWhileD)
  ultimately show ?thesis
    by blast
qed

lemma trim_trim: "trim (trim s) = trim s"
proof (cases "trim s = []")
  case True
  have "trim [] = []" by (simp add: trim_def)
  with True show ?thesis by (simp only:)
next
  case False
  define t where "t = dropWhile isWhiteSpace s"
  define u where "u = dropWhile isWhiteSpace (rev t)"
  have ts: "trim s = rev u" by (simp add: trim_def t_def u_def)
  from False have u: "u \<noteq> []" by (simp add: ts)
  have t: "t \<noteq> []"
  proof
    assume "t = []"
    then have "u = []" by (simp add: u_def)
    with u show False by simp
  qed
  have "rev t = takeWhile isWhiteSpace (rev t) @ u"
    by (simp add: u_def)
  then have "last (rev t) = last u"
    using u by (metis last_appendR)
  then have last_u: "last u = hd t"
    using t by (simp add: last_rev)
  have "\<not> isWhiteSpace (hd t)" unfolding t_def using t [unfolded t_def] by (rule hd_dropWhile)
  then have "\<not> isWhiteSpace (hd (rev u))" using u last_u by (simp add: hd_rev)
  then have 1: "dropWhile isWhiteSpace (rev u) = rev u"
    by (simp add: dropWhile_eq_self_iff)
  have "\<not> isWhiteSpace (hd u)" unfolding u_def using u [unfolded u_def] by (rule hd_dropWhile)
  then have 2: "dropWhile isWhiteSpace u = u"
    by (simp add: dropWhile_eq_self_iff)
  have "trim (rev u) = rev u"
    unfolding trim_def by (simp only: 1 rev_rev_ident 2)
  then show ?thesis by (simp only: ts)
qed

subsection \<open>The Message constructor\<close>

lemma Message_new_props: "Message_new props = Inr m \<Longrightarrow> message_props m = props"
  by (auto simp: Message_new_def message_props_def split: if_splits option.splits)

text \<open>Every message the constructor returns passes the constructor again on its own props;
  this is how the theorems below say that a message is a constructed one.\<close>

lemma Message_new_valid: "Message_new props = Inr m \<Longrightarrow> Message_new (message_props m) = Inr m"
  by (simp add: Message_new_props)

lemma Message_new_Inr:
  "Message_new props = Inr m \<Longrightarrow>
     m_id m = p_id props \<and> m_role m = p_role props \<and> m_content m = p_content props \<and>
     m_conversationId m = p_conversationId props"
  by (auto simp: Message_new_def split: if_splits option.splits)

text \<open>
  Claim C4. For all valid \<^verbatim>\<open>MessageProps\<close> the constructor succeeds and every getter returns
  the stored value, the empty sequence for an omitted sequence field; for invalid props it fails
  with the message of the first violated invariant, the checks being made in the order: id empty
  after trimming, content empty after trimming, content longer than 2000, role neither
  \<^verbatim>\<open>user\<close> nor \<^verbatim>\<open>assistant\<close>, timestamp missing. A content of length 2000 is accepted
  and one of length 2001 is rejected (the witness shows both).
\<close>

theorem Message_constructor_contract:
  fixes props :: "string list MessageProps"
  shows
  \<open>(trim (p_id props) \<noteq> [] \<and> trim (p_content props) \<noteq> [] \<and> length (p_content props) \<le> 2000
      \<and> p_role props \<in> {''user'', ''assistant''} \<and> p_timestamp props = Some t \<longrightarrow>
      (\<exists>m. Message_new props = Inr m \<and> m_id m = p_id props \<and> m_role m = p_role props
         \<and> m_content m = p_content props \<and> m_timestamp m = t
         \<and> m_conversationId m = p_conversationId props
         \<and> get_spiritualThemes m = (case p_spiritualThemes props of Some xs \<Rightarrow> xs | None \<Rightarrow> [])
         \<and> get_suggestedActions m = (case p_suggestedActions props of Some xs \<Rightarrow> xs | None \<Rightarrow> [])
         \<and> get_relatedTopics m = (case p_relatedTopics props of Some xs \<Rightarrow> xs | None \<Rightarrow> [])))
   \<and> (trim (p_id props) = [] \<longrightarrow> Message_new props = Inl (Error ''Message ID is required''))
   \<and> (trim (p_id props) \<noteq> [] \<and> trim (p_content props) = [] \<longrightarrow>
        Message_new props = Inl (Error ''Message content cannot be empty''))
   \<and> (trim (p_id props) \<noteq> [] \<and> trim (p_content props) \<noteq> [] \<and> length (p_content props) > 2000 \<longrightarrow>
        Message_new props =
          Inl (Error ''Message too long. Please keep messages under 2000 characters.''))
   \<and> (trim (p_id props) \<noteq> [] \<and> trim (p_content props) \<noteq> [] \<and> length (p_content props) \<le> 2000
        \<and> p_role props \<notin> {''user'', ''assistant''} \<longrightarrow>
        Message_new props = Inl (Error ''Invalid message role. Must be "user" or "assistant"''))
   \<and> (trim (p_id props) \<noteq> [] \<and> trim (p_content props) \<noteq> [] \<and> length (p_content props) \<le> 2000
        \<and> p_role props \<in> {''user'', ''assistant''} \<and> p_timestamp props = None \<longrightarrow>
        Message_new props = Inl (Error ''Message timestamp is required''))\<close>
  by (auto simp: Message_new_def get_spiritualThemes_def get_suggestedActions_def
      get_relatedTopics_def)

theorem Message_constructor_contract_witness:
  \<open>(\<exists>m. Message_new
          \<lparr>p_id = ''test-message-1'', p_role = ''user'', p_content = replicate 2000 (CHR ''a''),
           p_timestamp = Some (Date 1672574400000), p_conversationId = Some ''conv-1'',
           p_spiritualThemes = Some [''inner_peace''], p_suggestedActions = None,
           p_relatedTopics = None\<rparr> = Inr m
        \<and> m_id m = ''test-message-1'' \<and> m_content m = replicate 2000 (CHR ''a'')
        \<and> m_timestamp m = Date 1672574400000
        \<and> get_spiritualThemes m = [''inner_peace''] \<and> get_suggestedActions m = []
        \<and> get_relatedTopics m = [])
   \<and> Message_new
        \<lparr>p_id = ''test-message-1'', p_role = ''user'', p_content = replicate 2001 (CHR ''a''),
         p_timestamp = Some (Date 1672574400000), p_conversationId = Some ''conv-1'',
         p_spiritualThemes = Some [''inner_peace''], p_suggestedActions = None,
         p_relatedTopics = None\<rparr>
       = Inl (Error ''Message too long. Please keep messages under 2000 characters.'')
   \<and> Message_new
        \<lparr>p_id = ''  '', p_role = ''bot'', p_content = '''',
         p_timestamp = None, p_conversationId = None,
         p_spiritualThemes = None :: string list option, p_suggestedActions = None,
         p_relatedTopics = None\<rparr>
       = Inl (Error ''Message ID is required'')
   \<and> Message_new
        \<lparr>p_id = ''m2'', p_role = ''bot'', p_content = '' '',
         p_timestamp = None, p_conversationId = None,
         p_spiritualThemes = None :: string list option, p_suggestedActions = None,
         p_relatedTopics = None\<rparr>
       = Inl (Error ''Message content cannot be empty'')
   \<and> Message_new
        \<lparr>p_id = ''m3'', p_role = ''bot'', p_content = ''Hello'',
         p_timestamp = None, p_conversationId = None,
         p_spiritualThemes = None :: string list option, p_suggestedActions = None,
         p_relatedTopics = None\<rparr>
       = Inl (Error ''Invalid message role. Must be "user" or "assistant"'')
   \<and> Message_new
        \<lparr>p_id = ''m4'', p_role = ''assistant'', p_content = ''Hello'',
         p_timestamp = None, p_conversationId = None,
         p_spiritualThemes = None :: string list option, p_suggestedActions = None,
         p_relatedTopics = None\<rparr>
       = Inl (Error ''Message timestamp is required'')\<close>
proof -
  have a: "trim (replicate 2000 (CHR ''a'')) \<noteq> []" "trim (replicate 2001 (CHR ''a'')) \<noteq> []"
    by (simp_all add: trim_Nil_iff list_all_iff isWhiteSpace_def)
  have b: "trim ''test-message-1'' \<noteq> []" "trim ''  '' = []" "trim '' '' = []"
    "trim ''m2'' \<noteq> []" "trim ''m3'' \<noteq> []" "trim ''m4'' \<noteq> []" "trim ''Hello'' \<noteq> []"
    by (simp_all add: trim_Nil_iff isWhiteSpace_def)
  show ?thesis
    using
      Message_constructor_contract
        [of "\<lparr>p_id = ''test-message-1'', p_role = ''user'', p_content = replicate 2000 (CHR ''a''),
           p_timestamp = Some (Date 1672574400000), p_conversationId = Some ''conv-1'',
           p_spiritualThemes = Some [''inner_peace''], p_suggestedActions = None,
           p_relatedTopics = None\<rparr>" "Date 1672574400000"]
      Message_constructor_contract
        [of "\<lparr>p_id = ''test-message-1'', p_role = ''user'', p_content = replicate 2001 (CHR ''a''),
         p_timestamp = Some (Date 1672574400000), p_conversationId = Some ''conv-1'',
         p_spiritualThemes = Some [''inner_peace''], p_suggestedActions = None,
         p_relatedTopics = None\<rparr>" "Date 0"]
      Message_constructor_contract
        [of "\<lparr>p_id = ''  '', p_role = ''bot'', p_content = '''',
         p_timestamp = None, p_conversationId = None,
         p_spiritualThemes = None, p_suggestedActions = None, p_relatedTopics = None\<rparr>" "Date 0"]
      Message_constructor_contract
        [of "\<lparr>p_id = ''m2'', p_role = ''bot'', p_content = '' '',
         p_timestamp = None, p_conversationId = None,
         p_spiritualThemes = None, p_suggestedActions = None, p_relatedTopics = None\<rparr>" "Date 0"]
      Message_constructor_contract
        [of "\<lparr>p_id = ''m3'', p_role = ''bot'', p_content = ''Hello'',
         p_timestamp = None, p_conversationId = None,
         p_spiritualThemes = None, p_suggestedActions = None, p_relatedTopics = None\<rparr>" "Date 0"]
      Message_constructor_contract
        [of "\<lparr>p_id = ''m4'', p_role = ''assistant'', p_content = ''Hello'',
         p_timestamp = None, p_conversationId = None,
         p_spiritualThemes = None, p_suggestedActions = None, p_relatedTopics = None\<rparr>" "Date 0"]
    by (auto simp: a b)
qed

subsection \<open>Adding a message\<close>

lemma validateConversation_props:
  "validateConversation props = Inr c \<Longrightarrow> props_of c = props"
  by (auto simp: validateConversation_def props_of_def split: if_splits option.splits)

text \<open>Every conversation the constructor returns passes validation again on its own props;
  this is how the theorems below say that a conversation is a constructed one.\<close>

lemma validateConversation_valid:
  "validateConversation props = Inr c \<Longrightarrow> validateConversation (props_of c) = Inr c"
  by (simp add: validateConversation_props)

lemma validateConversation_Inr:
  "validateConversation props = Inr c \<Longrightarrow>
     c_id c = cp_id props \<and> cp_messages props = Some (c_messages c)"
  by (auto simp: validateConversation_def split: if_splits option.splits)

lemma valid_conversation_id:
  "validateConversation (props_of c) = Inr c \<Longrightarrow> trim (c_id c) \<noteq> []"
  by (auto simp: validateConversation_def props_of_def split: if_splits)

lemma validate_update:
  assumes "trim (c_id c) \<noteq> []"
  shows "validateConversation ((props_of c)\<lparr>cp_messages := Some ms, cp_updatedAt := Some (Date now)\<rparr>) =
     (if date_less (Date now) (c_createdAt c)
      then Inl (Error ''Update date cannot be before creation date'')
      else Inr (c\<lparr>c_messages := ms, c_updatedAt := Date now\<rparr>))"
  using assms by (simp add: validateConversation_def props_of_def)

lemma addMessage_eq:
  assumes "trim (c_id c) \<noteq> []"
  shows "addMessage now c m =
     (if truthy (m_conversationId m) \<and> m_conversationId m \<noteq> Some (c_id c)
      then Inl (Error ''Message conversation ID does not match'')
      else if date_less (Date now) (c_createdAt c)
      then Inl (Error ''Update date cannot be before creation date'')
      else Inr (c\<lparr>c_messages := c_messages c @ [m], c_updatedAt := Date now\<rparr>))"
  using assms
  by (simp add: addMessage_def Conversation_new_def validate_update)

lemma addMessage_Inr:
  "addMessage now c m = Inr c' \<Longrightarrow> c_messages c' = c_messages c @ [m] \<and> c_id c' = c_id c"
  by (auto simp: addMessage_def Conversation_new_def props_of_def split: if_splits
        dest!: validateConversation_Inr)

lemma addMessage_ref_eq:
  assumes "trim (c_id c) \<noteq> []"
  shows "addMessage_ref now c m h =
     (if truthy (m_conversationId m) \<and> m_conversationId m \<noteq> Some (c_id c)
      then (Inl (Error ''Message conversation ID does not match''), h)
      else if date_less (Date now) (c_createdAt c)
      then (Inl (Error ''Update date cannot be before creation date''),
            h\<lparr>cells := (cells h)(fresh h := cells h (c_messages c) @ [m]), fresh := Suc (fresh h)\<rparr>)
      else (Inr (c\<lparr>c_messages := Suc (fresh h), c_updatedAt := Date now\<rparr>),
            h\<lparr>cells := (cells h)(fresh h := cells h (c_messages c) @ [m],
                                    Suc (fresh h) := cells h (c_messages c) @ [m]),
              fresh := Suc (Suc (fresh h))\<rparr>))"
  using assms
  by (simp add: addMessage_ref_def Conversation_new_ref_def validate_update alloc_def)

text \<open>On what the references denote, the operation on shared arrays is the operation on
  lists.\<close>

lemma addMessage_ref_refines:
  assumes "trim (c_id c) \<noteq> []"
  shows "map_sum id (conversation_in (snd (addMessage_ref now c m h))) (fst (addMessage_ref now c m h))
        = addMessage now (conversation_in h c) m"
proof -
  have j: "trim (c_id (conversation_in h c)) \<noteq> []"
    using assms by (simp add: conversation_in_def)
  show ?thesis
    unfolding addMessage_ref_eq [OF assms] addMessage_eq [OF j]
    by (simp add: conversation_in_def)
qed

text \<open>
  Claim C1, as amended. For every constructed conversation \<open>c\<close> living in a store, every message
  \<open>m\<close> and every reading \<open>now\<close> of the clock, \<^verbatim>\<open>c.addMessage(m)\<close> throws exactly when
  \<^verbatim>\<open>m.conversationId\<close> is a non-empty string other than \<^verbatim>\<open>c.id\<close>, or the clock reads
  earlier than \<^verbatim>\<open>c.createdAt\<close> (the constructor then rejects the new update date).
  Otherwise it returns a conversation with an array of its own holding \<open>c\<close>'s messages followed
  by \<open>m\<close>, with the update date \<open>now\<close> and the other fields of \<open>c\<close>; its count is \<open>c\<close>'s plus
  one. In every case the array of \<open>c\<close> is left as it was, so \<open>c\<close>'s count is the same before and
  after. The last conjunct relates the operation on shared arrays to the one on lists.
\<close>

theorem addMessage_contract:
  assumes "validateConversation (props_of c) = Inr c" and "allocated h (c_messages c)"
  shows "(case addMessage_ref now c m h of
      (Inl e, h') \<Rightarrow>
        ((truthy (m_conversationId m) \<and> m_conversationId m \<noteq> Some (c_id c)) \<or>
         date_less (Date now) (c_createdAt c)) \<and>
        cells h' (c_messages c) = cells h (c_messages c) \<and>
        getMessageCount_ref c h' = getMessageCount_ref c h
    | (Inr c', h') \<Rightarrow>
        \<not> (truthy (m_conversationId m) \<and> m_conversationId m \<noteq> Some (c_id c)) \<and>
        \<not> date_less (Date now) (c_createdAt c) \<and>
        c_messages c' \<noteq> c_messages c \<and>
        cells h' (c_messages c') = cells h (c_messages c) @ [m] \<and>
        cells h' (c_messages c) = cells h (c_messages c) \<and>
        getMessageCount_ref c h' = getMessageCount_ref c h \<and>
        getMessageCount_ref c' h' = getMessageCount_ref c h + 1 \<and>
        c_id c' = c_id c \<and> c_createdAt c' = c_createdAt c \<and> c_updatedAt c' = Date now \<and>
        c_summary c' = c_summary c \<and> c_userId c' = c_userId c)
    \<and> map_sum id (conversation_in (snd (addMessage_ref now c m h))) (fst (addMessage_ref now c m h))
        = addMessage now (conversation_in h c) m"
proof -
  have i: "trim (c_id c) \<noteq> []"
    using assms(1) by (rule valid_conversation_id)
  have "case addMessage_ref now c m h of
      (Inl e, h') \<Rightarrow>
        ((truthy (m_conversationId m) \<and> m_conversationId m \<noteq> Some (c_id c)) \<or>
         date_less (Date now) (c_createdAt c)) \<and>
        cells h' (c_messages c) = cells h (c_messages c) \<and>
        getMessageCount_ref c h' = getMessageCount_ref c h
    | (Inr c', h') \<Rightarrow>
        \<not> (truthy (m_conversationId m) \<and> m_conversationId m \<noteq> Some (c_id c)) \<and>
        \<not> date_less (Date now) (c_createdAt c) \<and>
        c_messages c' \<noteq> c_messages c \<and>
        cells h' (c_messages c') = cells h (c_messages c) @ [m] \<and>
        cells h' (c_messages c) = cells h (c_messages c) \<and>
        getMessageCount_ref c h' = getMessageCount_ref c h \<and>
        getMessageCount_ref c' h' = getMessageCount_ref c h + 1 \<and>
        c_id c' = c_id c \<and> c_createdAt c' = c_createdAt c \<and> c_updatedAt c' = Date now \<and>
        c_summary c' = c_summary c \<and> c_userId c' = c_userId c"
    using assms(2)
    by (auto simp: addMessage_ref_eq [OF i] allocated_def getMessageCount_ref_def)
  then show ?thesis
    using addMessage_ref_refines [OF i] by blast
qed

theorem addMessage_contract_witness:
  "(let c = \<lparr>c_id = ''conv-1'', c_messages = 0, c_createdAt = Date 1000, c_updatedAt = Date 1000,
             c_summary = None, c_userId = None\<rparr>;
        m = \<lparr>m_id = ''msg-1'', m_role = ''user'', m_content = ''Hello'', m_timestamp = Date 1500,
             m_conversationId = Some ''conv-1'', m_spiritualThemes = None,
             m_suggestedActions = None, m_relatedTopics = None\<rparr>;
        h = \<lparr>cells = (\<lambda>_. []), fresh = 1\<rparr>
    in validateConversation (props_of c) = Inr c \<and> allocated h (c_messages c) \<and>
       addMessage_ref 2000 c m h =
         (Inr (c\<lparr>c_messages := 2, c_updatedAt := Date 2000\<rparr>),
          \<lparr>cells = (\<lambda>_. [])(1 := [m], 2 := [m]), fresh = 3\<rparr>) \<and>
       getMessageCount_ref c (snd (addMessage_ref 2000 c m h)) = 0 \<and>
       getMessageCount_ref (c\<lparr>c_messages := 2\<rparr>) (snd (addMessage_ref 2000 c m h)) = 1)"
proof -
  let ?c = "\<lparr>c_id = ''conv-1'', c_messages = 0::nat, c_createdAt = Date 1000, c_updatedAt = Date 1000,
             c_summary = None, c_userId = None\<rparr>"
  let ?m = "\<lparr>m_id = ''msg-1'', m_role = ''user'', m_content = ''Hello'', m_timestamp = Date 1500,
             m_conversationId = Some ''conv-1'', m_spiritualThemes = None,
             m_suggestedActions = None, m_relatedTopics = None\<rparr> :: Message"
  let ?h = "\<lparr>cells = (\<lambda>_. []), fresh = 1\<rparr> :: Message store"
  have v: "validateConversation (props_of ?c) = Inr ?c"
    by (simp add: validateConversation_def props_of_def trim_def isWhiteSpace_def)
  have a: "allocated ?h (c_messages ?c)"
    by (simp add: allocated_def)
  have e: "addMessage_ref 2000 ?c ?m ?h =
         (Inr (?c\<lparr>c_messages := 2, c_updatedAt := Date 2000\<rparr>),
          \<lparr>cells = (\<lambda>_. [])(1 := [?m], 2 := [?m]), fresh = 3\<rparr>)"
    by (simp add: addMessage_ref_def Conversation_new_ref_def validateConversation_def props_of_def
        alloc_def truthy_def trim_def isWhiteSpace_def numeral_2_eq_2 numeral_3_eq_3)
  show ?thesis
    unfolding Let_def
    using addMessage_contract [OF v a, where now = 2000 and m = ?m] v a e
    by (simp add: getMessageCount_ref_def)
qed

text \<open>The claim as it was stated fails where the clock is behind the creation date: the
  conversation and the message below are constructed ones, the message names no conversation,
  and \<^verbatim>\<open>addMessage\<close> throws.\<close>

theorem addMessage_counterexample:
  "Conversation_new \<lparr>cp_id = ''conv-1'', cp_messages = Some [],
                      cp_createdAt = Some (Date 2000), cp_updatedAt = Some (Date 2000),
                      cp_summary = None, cp_userId = None\<rparr>
     = Inr \<lparr>c_id = ''conv-1'', c_messages = [], c_createdAt = Date 2000, c_updatedAt = Date 2000,
            c_summary = None, c_userId = None\<rparr>
   \<and> Message_new \<lparr>p_id = ''msg-1'', p_role = ''user'', p_content = ''Hello'',
                   p_timestamp = Some (Date 1000), p_conversationId = None,
                   p_spiritualThemes = None, p_suggestedActions = None, p_relatedTopics = None\<rparr>
     = Inr \<lparr>m_id = ''msg-1'', m_role = ''user'', m_content = ''Hello'', m_timestamp = Date 1000,
            m_conversationId = None, m_spiritualThemes = None, m_suggestedActions = None,
            m_relatedTopics = None\<rparr>
   \<and> addMessage 1000
        \<lparr>c_id = ''conv-1'', c_messages = [], c_createdAt = Date 2000, c_updatedAt = Date 2000,
         c_summary = None, c_userId = None\<rparr>
        \<lparr>m_id = ''msg-1'', m_role = ''user'', m_content = ''Hello'', m_timestamp = Date 1000,
         m_conversationId = None, m_spiritualThemes = None, m_suggestedActions = None,
         m_relatedTopics = None\<rparr>
     = Inl (Error ''Update date cannot be before creation date'')"
  by (simp add: Conversation_new_def validateConversation_def Message_new_def addMessage_def
      props_of_def truthy_def trim_def isWhiteSpace_def)

subsection \<open>Serialization\<close>

lemma Message_fromJSON_toJSON:
  "Message_fromJSON parse (Message_toJSON x) = Message_new (message_props x)"
  by (simp add: Message_fromJSON_def Message_toJSON_def message_props_def)

lemma map_fromJSON_toJSON:
  "(\<forall>x\<in>set xs. Message_new (message_props x) = Inr x) \<Longrightarrow>
     map_throw (Message_fromJSON parse) (map Message_toJSON xs) = Inr xs"
  by (induction xs) (simp_all add: Message_fromJSON_toJSON)

lemma Conversation_fromJSON_toJSON:
  "(\<forall>x\<in>set (c_messages c). Message_new (message_props x) = Inr x) \<Longrightarrow>
      Conversation_fromJSON parse (Conversation_toJSON c) = Conversation_new (props_of c)"
  by (simp add: Conversation_fromJSON_def Conversation_toJSON_def map_fromJSON_toJSON props_of_def)

text \<open>Through the stored form, a date field comes back as what the runtime reads from the
  stringified date.\<close>

lemma Message_fromJSON_stored:
  "Message_fromJSON parse (Message_stored toISOString (Message_toJSON x)) =
     Message_new ((message_props x)
       \<lparr>p_timestamp := Some (new_Date parse (Date_toJSON toISOString (m_timestamp x)))\<rparr>)"
  by (simp add: Message_fromJSON_def Message_toJSON_def Message_stored_def stored_date_def
      message_props_def)

lemma Message_fromJSON_stored_survives:
  assumes "new_Date parse (Date_toJSON toISOString (m_timestamp x)) = m_timestamp x"
  shows "Message_fromJSON parse (Message_stored toISOString (Message_toJSON x)) =
     Message_new (message_props x)"
  unfolding Message_fromJSON_stored assms by (simp add: message_props_def)

lemma map_fromJSON_stored:
  "(\<forall>x\<in>set xs. Message_new (message_props x) = Inr x \<and>
       new_Date parse (Date_toJSON toISOString (m_timestamp x)) = m_timestamp x) \<Longrightarrow>
     map_throw (Message_fromJSON parse) (map (Message_stored toISOString \<circ> Message_toJSON) xs)
       = Inr xs"
  by (induction xs) (simp_all add: Message_fromJSON_stored_survives)

lemma Conversation_fromJSON_stored:
  assumes "\<forall>x\<in>set (c_messages c). Message_new (message_props x) = Inr x \<and>
       new_Date parse (Date_toJSON toISOString (m_timestamp x)) = m_timestamp x"
    and "new_Date parse (Date_toJSON toISOString (c_createdAt c)) = c_createdAt c"
    and "new_Date parse (Date_toJSON toISOString (c_updatedAt c)) = c_updatedAt c"
  shows "Conversation_fromJSON parse (Conversation_stored toISOString (Conversation_toJSON c)) =
     Conversation_new (props_of c)"
  using assms(2,3)
  by (simp add: Conversation_fromJSON_def Conversation_toJSON_def Conversation_stored_def
      stored_date_def map_fromJSON_stored [OF assms(1)] props_of_def)

text \<open>
  Claim C3, as amended. For every constructed message \<open>m\<close> and every constructed conversation
  \<open>c\<close> of constructed messages, \<^verbatim>\<open>Message.fromJSON(m.toJSON())\<close> and
  \<^verbatim>\<open>Conversation.fromJSON(c.toJSON())\<close> succeed and give back every field, the nested
  messages and the dates as time values included. \<^verbatim>\<open>toJSON\<close> itself passes the date fields on
  as \<^verbatim>\<open>Date\<close> values, not as strings. It is the repository's
  \<^verbatim>\<open>JSON.stringify\<close> that turns a valid date into its ISO-8601 string and an invalid date
  into \<^verbatim>\<open>null\<close>; from that stored form \<^verbatim>\<open>fromJSON\<close> gives the entity back whenever
  \<^verbatim>\<open>new Date\<close> reads each stringified date field back to the time value it had (for a valid
  date: whenever the runtime's parser reads its own ISO-8601 string back), and an invalid date
  comes back as the epoch.
\<close>

theorem serialization_roundtrip:
  "(Message_new (message_props m) = Inr m \<longrightarrow>
      Message_fromJSON parse (Message_toJSON m) = Inr m \<and>
      j_timestamp (Message_toJSON m) = JDate (m_timestamp m) \<and>
      (new_Date parse (Date_toJSON toISOString (m_timestamp m)) = m_timestamp m \<longrightarrow>
       Message_fromJSON parse (Message_stored toISOString (Message_toJSON m)) = Inr m))
   \<and> (Conversation_new (props_of c) = Inr c \<and>
       (\<forall>x\<in>set (c_messages c). Message_new (message_props x) = Inr x) \<longrightarrow>
      Conversation_fromJSON parse (Conversation_toJSON c) = Inr c \<and>
      cj_createdAt (Conversation_toJSON c) = JDate (c_createdAt c) \<and>
      cj_updatedAt (Conversation_toJSON c) = JDate (c_updatedAt c) \<and>
      (new_Date parse (Date_toJSON toISOString (c_createdAt c)) = c_createdAt c \<and>
       new_Date parse (Date_toJSON toISOString (c_updatedAt c)) = c_updatedAt c \<and>
       (\<forall>x\<in>set (c_messages c).
          new_Date parse (Date_toJSON toISOString (m_timestamp x)) = m_timestamp x) \<longrightarrow>
       Conversation_fromJSON parse (Conversation_stored toISOString (Conversation_toJSON c))
         = Inr c))
   \<and> j_timestamp (Message_stored toISOString (Message_toJSON m))
       = Date_toJSON toISOString (m_timestamp m)
   \<and> Date_toJSON toISOString (Date t) = JString (toISOString t)
   \<and> new_Date parse (Date_toJSON toISOString (Date t)) = parse (toISOString t)
   \<and> new_Date parse (Date_toJSON toISOString InvalidDate) = Date 0"
proof -
  have 1: "j_timestamp (Message_toJSON m) = JDate (m_timestamp m)"
    by (simp add: Message_toJSON_def)
  have 2: "cj_createdAt (Conversation_toJSON c) = JDate (c_createdAt c)"
    by (simp add: Conversation_toJSON_def)
  have 3: "cj_updatedAt (Conversation_toJSON c) = JDate (c_updatedAt c)"
    by (simp add: Conversation_toJSON_def)
  have 4: "j_timestamp (Message_stored toISOString (Message_toJSON m))
       = Date_toJSON toISOString (m_timestamp m)"
    by (simp add: Message_stored_def Message_toJSON_def stored_date_def)
  have 5: "Conversation_new (props_of c) = Inr c \<Longrightarrow>
       (\<forall>x\<in>set (c_messages c). Message_new (message_props x) = Inr x) \<Longrightarrow>
       new_Date parse (Date_toJSON toISOString (c_createdAt c)) = c_createdAt c \<Longrightarrow>
       new_Date parse (Date_toJSON toISOString (c_updatedAt c)) = c_updatedAt c \<Longrightarrow>
       (\<forall>x\<in>set (c_messages c).
          new_Date parse (Date_toJSON toISOString (m_timestamp x)) = m_timestamp x) \<Longrightarrow>
       Conversation_fromJSON parse (Conversation_stored toISOString (Conversation_toJSON c))
         = Inr c"
    using Conversation_fromJSON_stored [of c parse toISOString] by simp
  have 6: "Date_toJSON toISOString (Date t) = JString (toISOString t)"
    "new_Date parse (Date_toJSON toISOString (Date t)) = parse (toISOString t)"
    "new_Date parse (Date_toJSON toISOString InvalidDate) = Date 0"
    by (simp_all add: Date_toJSON_def)
  show ?thesis
    unfolding 1 2 3 4 6 using 5
    by (simp add: Message_fromJSON_toJSON Conversation_fromJSON_toJSON
        Message_fromJSON_stored_survives)
qed

theorem serialization_roundtrip_witness:
  "(let parse = (\<lambda>s. if s = ''2023-01-01T12:00:00.000Z'' then Date 1672574400000 else InvalidDate);
        toISOString = (\<lambda>t. if t = 1672574400000 then ''2023-01-01T12:00:00.000Z'' else []);
        m1 = \<lparr>m_id = ''user-1'', m_role = ''user'', m_content = ''Hello'',
              m_timestamp = Date 1672574400000, m_conversationId = None,
              m_spiritualThemes = None, m_suggestedActions = None, m_relatedTopics = None\<rparr>;
        m2 = \<lparr>m_id = ''assistant-1'', m_role = ''assistant'', m_content = ''Welcome'',
              m_timestamp = Date 1672574400000, m_conversationId = Some ''conv-test-1'',
              m_spiritualThemes = Some [''meditation''], m_suggestedActions = Some [],
              m_relatedTopics = None\<rparr>;
        c = \<lparr>c_id = ''conv-test-1'', c_messages = [m1, m2], c_createdAt = Date 1672574400000,
             c_updatedAt = Date 1672574400000, c_summary = Some ''Greeting'',
             c_userId = Some ''user-123''\<rparr>
    in Message_new (message_props m1) = Inr m1 \<and> Message_new (message_props m2) = Inr m2 \<and>
       Conversation_new (props_of c) = Inr c \<and>
       new_Date parse (Date_toJSON toISOString (Date 1672574400000)) = Date 1672574400000 \<and>
       Message_fromJSON parse (Message_toJSON m2) = Inr m2 \<and>
       Message_fromJSON parse (Message_stored toISOString (Message_toJSON m2)) = Inr m2 \<and>
       Conversation_fromJSON parse (Conversation_toJSON c) = Inr c \<and>
       Conversation_fromJSON parse (Conversation_stored toISOString (Conversation_toJSON c)) = Inr c)"
proof -
  let ?parse = "\<lambda>s. if s = ''2023-01-01T12:00:00.000Z'' then Date 1672574400000 else InvalidDate"
  let ?iso = "\<lambda>t::int. if t = 1672574400000 then ''2023-01-01T12:00:00.000Z'' else []"
  let ?m1 = "\<lparr>m_id = ''user-1'', m_role = ''user'', m_content = ''Hello'',
              m_timestamp = Date 1672574400000, m_conversationId = None,
              m_spiritualThemes = None, m_suggestedActions = None, m_relatedTopics = None\<rparr> :: Message"
  let ?m2 = "\<lparr>m_id = ''assistant-1'', m_role = ''assistant'', m_content = ''Welcome'',
              m_timestamp = Date 1672574400000, m_conversationId = Some ''conv-test-1'',
              m_spiritualThemes = Some [''meditation''], m_suggestedActions = Some [],
              m_relatedTopics = None\<rparr> :: Message"
  let ?c = "\<lparr>c_id = ''conv-test-1'', c_messages = [?m1, ?m2], c_createdAt = Date 1672574400000,
             c_updatedAt = Date 1672574400000, c_summary = Some ''Greeting'',
             c_userId = Some ''user-123''\<rparr>"
  have t: "trim ''user-1'' \<noteq> []" "trim ''assistant-1'' \<noteq> []" "trim ''Hello'' \<noteq> []"
    "trim ''Welcome'' \<noteq> []" "trim ''conv-test-1'' \<noteq> []"
    by (simp_all add: trim_Nil_iff isWhiteSpace_def)
  have v1: "Message_new (message_props ?m1) = Inr ?m1"
    by (simp add: Message_new_def message_props_def t)
  have v2: "Message_new (message_props ?m2) = Inr ?m2"
    by (simp add: Message_new_def message_props_def t)
  have vc: "Conversation_new (props_of ?c) = Inr ?c"
    by (simp add: Conversation_new_def validateConversation_def props_of_def t)
  have d: "new_Date ?parse (Date_toJSON ?iso (Date 1672574400000)) = Date 1672574400000"
    by (simp add: Date_toJSON_def)
  show ?thesis
    unfolding Let_def
    using serialization_roundtrip [of ?m2 ?parse ?iso ?c] v1 v2 vc d
    by simp
qed

text \<open>The claim as it was stated fails on both readings of it. \<^verbatim>\<open>toJSON\<close> does not
  serialize the timestamp as a string: the field holds the \<^verbatim>\<open>Date\<close> value. And when the
  repository's stringification does produce the stored form, a constructed message whose
  timestamp is an invalid date comes back, whatever the runtime's printer and parser, with the
  epoch as its timestamp.\<close>

theorem serialization_counterexample:
  "Message_new (message_props
       \<lparr>m_id = ''user-1'', m_role = ''user'', m_content = ''Hello'',
        m_timestamp = Date 1672574400000, m_conversationId = None,
        m_spiritualThemes = None :: string list option, m_suggestedActions = None,
        m_relatedTopics = None\<rparr>)
     = Inr \<lparr>m_id = ''user-1'', m_role = ''user'', m_content = ''Hello'',
        m_timestamp = Date 1672574400000, m_conversationId = None,
        m_spiritualThemes = None, m_suggestedActions = None, m_relatedTopics = None\<rparr>
   \<and> j_timestamp (Message_toJSON
       \<lparr>m_id = ''user-1'', m_role = ''user'', m_content = ''Hello'',
        m_timestamp = Date 1672574400000, m_conversationId = None,
        m_spiritualThemes = None :: string list option, m_suggestedActions = None,
        m_relatedTopics = None\<rparr>) = JDate (Date 1672574400000)
   \<and> j_timestamp (Message_toJSON
       \<lparr>m_id = ''user-1'', m_role = ''user'', m_content = ''Hello'',
        m_timestamp = Date 1672574400000, m_conversationId = None,
        m_spiritualThemes = None :: string list option, m_suggestedActions = None,
        m_relatedTopics = None\<rparr>) \<noteq> JString ''2023-01-01T12:00:00.000Z''
   \<and> Message_new (message_props
       \<lparr>m_id = ''user-2'', m_role = ''user'', m_content = ''Hello'',
        m_timestamp = InvalidDate, m_conversationId = None,
        m_spiritualThemes = None :: string list option, m_suggestedActions = None,
        m_relatedTopics = None\<rparr>)
     = Inr \<lparr>m_id = ''user-2'', m_role = ''user'', m_content = ''Hello'',
        m_timestamp = InvalidDate, m_conversationId = None,
        m_spiritualThemes = None, m_suggestedActions = None, m_relatedTopics = None\<rparr>
   \<and> (\<forall>parse toISOString.
        Message_fromJSON parse (Message_stored toISOString (Message_toJSON
          \<lparr>m_id = ''user-2'', m_role = ''user'', m_content = ''Hello'',
           m_timestamp = InvalidDate, m_conversationId = None,
           m_spiritualThemes = None :: string list option, m_suggestedActions = None,
           m_relatedTopics = None\<rparr>))
        = Inr \<lparr>m_id = ''user-2'', m_role = ''user'', m_content = ''Hello'',
           m_timestamp = Date 0, m_conversationId = None,
           m_spiritualThemes = None, m_suggestedActions = None, m_relatedTopics = None\<rparr>)"
proof -
  have t: "trim ''user-1'' \<noteq> []" "trim ''user-2'' \<noteq> []" "trim ''Hello'' \<noteq> []"
    by (simp_all add: trim_Nil_iff isWhiteSpace_def)
  show ?thesis
    by (simp add: Message_new_def message_props_def Message_toJSON_def Message_fromJSON_def
        Message_stored_def stored_date_def Date_toJSON_def t)
qed

subsection \<open>Who holds the arrays\<close>

text \<open>The getter of a conversation's messages hands out an array of its own: writing
  through it leaves the conversation's messages as they were.\<close>

lemma messages_getter_copies:
  assumes "allocated h (c_messages c)" and "messages_ref c h = (r, h')"
  shows "r \<noteq> c_messages c \<and> cells h' r = cells h (c_messages c) \<and>
         cells (array_push r x h') (c_messages c) = cells h (c_messages c)"
  using assms by (auto simp: messages_ref_def alloc_def allocated_def array_push_def)

text \<open>The constructor of a conversation stores an array of its own: writing through the
  caller's array afterwards leaves the conversation's messages as they were.\<close>

lemma Conversation_constructor_copies:
  assumes "cp_messages props = Some a" and "allocated h a"
    and "Conversation_new_ref props h = (Inr c, h')"
  shows "c_messages c \<noteq> a \<and> cells h' (c_messages c) = cells h a \<and>
         cells (array_push a x h') (c_messages c) = cells h a"
  using assms
  by (auto simp: Conversation_new_ref_def alloc_def allocated_def array_push_def Let_def
      split: sum.splits dest!: validateConversation_Inr)

text \<open>
  Claim C5 is refuted by the code of \<^verbatim>\<open>Message\<close>. Its constructor keeps the arrays it is
  given and its three getters of sequence fields return the stored array itself
  (\<^verbatim>\<open>this.props.spiritualThemes || []\<close>), where the getter and the constructor of
  \<^verbatim>\<open>Conversation\<close> copy. Below, a message is constructed over the array \<open>0\<close> holding one
  theme; the getter returns the reference \<open>0\<close>; a \<^verbatim>\<open>push\<close> through the returned reference
  changes what the message holds, as the next call of the getter shows.
\<close>

theorem Message_getter_aliasing:
  "(let h0 = \<lparr>cells = (\<lambda>_. [])(0 := [''meditation'']), fresh = 1\<rparr>;
        m = \<lparr>m_id = ''msg-1'', m_role = ''assistant'', m_content = ''Breathe.'',
             m_timestamp = Date 1000, m_conversationId = None, m_spiritualThemes = Some 0,
             m_suggestedActions = None, m_relatedTopics = None\<rparr>
    in Message_new \<lparr>p_id = ''msg-1'', p_role = ''assistant'', p_content = ''Breathe.'',
                      p_timestamp = Some (Date 1000), p_conversationId = None,
                      p_spiritualThemes = Some 0, p_suggestedActions = None,
                      p_relatedTopics = None\<rparr> = Inr m \<and>
       cells h0 0 = [''meditation''] \<and>
       spiritualThemes_ref m h0 = (0, h0) \<and>
       cells (array_push (fst (spiritualThemes_ref m h0)) ''x'' h0) 0 = [''meditation'', ''x''] \<and>
       cells (array_push (fst (spiritualThemes_ref m h0)) ''x'' h0)
          (fst (spiritualThemes_ref m (array_push (fst (spiritualThemes_ref m h0)) ''x'' h0)))
        = [''meditation'', ''x''])"
  by (simp add: Let_def Message_new_def spiritualThemes_ref_def array_push_def trim_def
      isWhiteSpace_def)

section \<open>Properties of the use cases\<close>

subsection \<open>Steps, logs and outcomes\<close>

lemma bind_io_Inr:
  "bind_io f g w = (Inr y, w'') \<longleftrightarrow> (\<exists>x w'. f w = (Inr x, w') \<and> g x w' = (Inr y, w''))"
  by (auto simp: bind_io_def split: prod.splits sum.splits)

lemma bind_io_Inl:
  "bind_io f g w = (Inl e, w'') \<longleftrightarrow>
     f w = (Inl e, w'') \<or> (\<exists>x w'. f w = (Inr x, w') \<and> g x w' = (Inl e, w''))"
  by (auto simp: bind_io_def split: prod.splits sum.splits)

lemma try_catch_cases:
  "try_catch body handler w = out \<longleftrightarrow>
     (\<exists>x w'. body w = (Inr x, w') \<and> out = (Inr x, w')) \<or>
     (\<exists>e w'. body w = (Inl e, w') \<and> out = handler e w')"
  by (auto simp: try_catch_def split: prod.splits sum.splits)

lemma calls_createUserMessage_io:
  "createUserMessage_io content cid w = (r, w') \<Longrightarrow> calls w' = calls w"
  by (auto simp: createUserMessage_io_def read_clock_def random_suffix_def Let_def)

lemma calls_createAssistantMessage_io:
  "createAssistantMessage_io content cid a b c w = (r, w') \<Longrightarrow> calls w' = calls w"
  by (auto simp: createAssistantMessage_io_def read_clock_def random_suffix_def Let_def)

lemma calls_addMessage_io:
  "addMessage_io c m w = (r, w') \<Longrightarrow> calls w' = calls w"
  by (auto simp: addMessage_io_def read_clock_def Let_def)

lemma calls_createNew_io:
  "createNew_io u w = (r, w') \<Longrightarrow> calls w' = calls w"
  by (auto simp: createNew_io_def read_clock_def random_suffix_def Let_def)

lemma calls_createWithFirstMessage_io:
  "createWithFirstMessage_io m u w = (r, w') \<Longrightarrow> calls w' = calls w"
  by (cases r)
     (auto simp: createWithFirstMessage_io_def bind_io_Inr bind_io_Inl
           dest!: calls_createNew_io calls_addMessage_io)

lemma calls_call_repo:
  "call_repo tag method q w = (r, w') \<Longrightarrow> calls w' = calls w @ [tag q]"
  by (auto simp: call_repo_def Let_def split: prod.splits)

lemma call_repo_outcome:
  "call_repo tag method q w = (r, w') \<Longrightarrow> r = fst (method q (backend w))"
  by (auto simp: call_repo_def Let_def split: prod.splits)

lemma createUserMessage_io_Inr:
  "createUserMessage_io content cid w = (Inr um, w') \<Longrightarrow>
     m_content um = trim content \<and> m_role um = ''user'' \<and> m_conversationId um = cid"
  by (auto simp: createUserMessage_io_def createUserMessage_def read_clock_def random_suffix_def
        Let_def dest!: Message_new_Inr)

lemma addMessage_io_Inr:
  "addMessage_io c m w = (Inr c', w') \<Longrightarrow> c_messages c' = c_messages c @ [m] \<and> c_id c' = c_id c"
  by (auto simp: addMessage_io_def read_clock_def Let_def dest!: addMessage_Inr)

lemma createNew_io_Inr:
  "createNew_io u w = (Inr c, w') \<Longrightarrow> c_messages c = []"
  by (auto simp: createNew_io_def createNew_def Conversation_new_def read_clock_def
        random_suffix_def Let_def dest!: validateConversation_Inr)

lemma createWithFirstMessage_io_Inr:
  "createWithFirstMessage_io m u w = (Inr c, w') \<Longrightarrow> c_messages c = [m]"
  by (auto simp: createWithFirstMessage_io_def bind_io_Inr
        dest!: createNew_io_Inr addMessage_io_Inr)

subsection \<open>SendChatMessage\<close>

lemma SendChatMessage_validation_error:
  "SendChatMessage_validateRequest request = Some e \<Longrightarrow>
   SendChatMessage_execute repo request w =
     (Inr \<lparr>scm_success = False, scm_updatedConversation = None, scm_assistantMessage = None,
           scm_error = Some e\<rparr>, w)"
  by (simp add: SendChatMessage_execute_def SendChatMessage_try_def try_catch_def return_io_def)

text \<open>What the \<^verbatim>\<open>try\<close> block returns when it returns: the validation failure, before
  anything else has happened; or the success, after both repository calls.\<close>

lemma SendChatMessage_try_Inr:
  assumes "SendChatMessage_try repo request w = (Inr result, w')"
  shows "(SendChatMessage_validateRequest request \<noteq> None \<and> w' = w \<and>
          result = \<lparr>scm_success = False, scm_updatedConversation = None,
                    scm_assistantMessage = None,
                    scm_error = SendChatMessage_validateRequest request\<rparr>)
       \<or> (SendChatMessage_validateRequest request = None \<and>
          (\<exists>userMessage assistantMessage final chatRequest.
             result = \<lparr>scm_success = True, scm_updatedConversation = Some final,
                       scm_assistantMessage = Some assistantMessage, scm_error = None\<rparr> \<and>
             c_messages final =
               (case req_conversation request of Some c \<Rightarrow> c_messages c | None \<Rightarrow> [])
               @ [userMessage, assistantMessage] \<and>
             m_role userMessage = ''user'' \<and> m_content userMessage = trim (req_message request) \<and>
             calls w' = calls w @ [SendChatMessageCall chatRequest, SaveConversationCall final] \<and>
             cr_message chatRequest = req_message request))"
proof (cases "SendChatMessage_validateRequest request")
  case (Some e)
  with assms show ?thesis
    by (auto simp: SendChatMessage_try_def return_io_def)
next
  case None
  with assms obtain um w1 cc w2 resp w3 am w4 fc w5 u where
    1: "createUserMessage_io (req_message request) (map_option c_id (req_conversation request)) w
          = (Inr um, w1)" and
    2: "(case req_conversation request of
           Some conversation \<Rightarrow> addMessage_io conversation um
         | None \<Rightarrow> createWithFirstMessage_io um None) w1 = (Inr cc, w2)" and
    3: "call_repo SendChatMessageCall (sendChatMessage repo)
          \<lparr>cr_message = req_message request, cr_conversationId = Some (c_id cc),
           cr_context = Some \<lparr>ctx_userProfile = req_userContext request,
                              ctx_location = req_location request,
                              ctx_timeOfDay = req_timeOfDay request\<rparr>\<rparr> w2 = (Inr resp, w3)" and
    4: "createAssistantMessage_io (resp_message resp) (Some (resp_conversationId resp))
          (Some (resp_spiritualThemes resp)) (resp_suggestedActions resp)
          (resp_relatedTopics resp) w3 = (Inr am, w4)" and
    5: "addMessage_io cc am w4 = (Inr fc, w5)" and
    6: "call_repo SaveConversationCall (saveConversation repo) fc w5 = (Inr u, w')" and
    7: "result = \<lparr>scm_success = True, scm_updatedConversation = Some fc,
                  scm_assistantMessage = Some am, scm_error = None\<rparr>"
    by (auto simp: SendChatMessage_try_def bind_io_Inr return_io_def)
  have c1: "calls w1 = calls w" using 1 by (rule calls_createUserMessage_io)
  have c2: "calls w2 = calls w1"
    using 2 by (auto split: option.splits dest: calls_addMessage_io calls_createWithFirstMessage_io)
  have m2: "c_messages cc =
      (case req_conversation request of Some c \<Rightarrow> c_messages c | None \<Rightarrow> []) @ [um]"
    using 2 by (auto split: option.splits dest: addMessage_io_Inr createWithFirstMessage_io_Inr)
  note c3 = calls_call_repo [OF 3]
  note c4 = calls_createAssistantMessage_io [OF 4]
  note c5 = calls_addMessage_io [OF 5]
  note c6 = calls_call_repo [OF 6]
  have m5: "c_messages fc = c_messages cc @ [am]"
    using 5 by (auto dest: addMessage_io_Inr)
  show ?thesis
    using None 7 createUserMessage_io_Inr [OF 1] m2 m5 c1 c2 c3 c4 c5 c6
    by auto
qed

text \<open>What the log holds when the \<^verbatim>\<open>try\<close> block throws: nothing new; or the chat request,
  carrying the message as it was received; or the chat request and the save, which is then the
  call that rejected.\<close>

lemma SendChatMessage_try_Inl:
  assumes "SendChatMessage_try repo request w = (Inl e, w')"
  shows "calls w' = calls w
       \<or> (\<exists>chatRequest. calls w' = calls w @ [SendChatMessageCall chatRequest] \<and>
             cr_message chatRequest = req_message request)
       \<or> (\<exists>chatRequest final s.
             calls w' = calls w @ [SendChatMessageCall chatRequest, SaveConversationCall final] \<and>
             cr_message chatRequest = req_message request \<and>
             fst (saveConversation repo final s) = Inl e)"
proof -
  have v: "SendChatMessage_validateRequest request = None"
    using assms by (auto simp: SendChatMessage_try_def return_io_def split: option.splits)
  let ?chatRequest = "\<lambda>cc. \<lparr>cr_message = req_message request, cr_conversationId = Some (c_id cc),
           cr_context = Some \<lparr>ctx_userProfile = req_userContext request,
                              ctx_location = req_location request,
                              ctx_timeOfDay = req_timeOfDay request\<rparr>\<rparr>"
  let ?step1 = "createUserMessage_io (req_message request)
                  (map_option c_id (req_conversation request))"
  let ?step2 = "\<lambda>um. (case req_conversation request of
           Some conversation \<Rightarrow> addMessage_io conversation um
         | None \<Rightarrow> createWithFirstMessage_io um None)"
  have c2: "calls w2 = calls w1" if "?step2 um w1 = (r, w2)" for um w1 r w2
    using that
    by (auto split: option.splits dest: calls_addMessage_io calls_createWithFirstMessage_io)
  consider
      (a) "?step1 w = (Inl e, w')"
    | (b) um w1 where "?step1 w = (Inr um, w1)" "?step2 um w1 = (Inl e, w')"
    | (c) um w1 cc w2 where "?step1 w = (Inr um, w1)" "?step2 um w1 = (Inr cc, w2)"
          "call_repo SendChatMessageCall (sendChatMessage repo) (?chatRequest cc) w2 = (Inl e, w')"
    | (d) um w1 cc w2 resp w3 where "?step1 w = (Inr um, w1)" "?step2 um w1 = (Inr cc, w2)"
          "call_repo SendChatMessageCall (sendChatMessage repo) (?chatRequest cc) w2 = (Inr resp, w3)"
          "createAssistantMessage_io (resp_message resp) (Some (resp_conversationId resp))
             (Some (resp_spiritualThemes resp)) (resp_suggestedActions resp)
             (resp_relatedTopics resp) w3 = (Inl e, w')"
    | (e) um w1 cc w2 resp w3 am w4 where "?step1 w = (Inr um, w1)" "?step2 um w1 = (Inr cc, w2)"
          "call_repo SendChatMessageCall (sendChatMessage repo) (?chatRequest cc) w2 = (Inr resp, w3)"
          "createAssistantMessage_io (resp_message resp) (Some (resp_conversationId resp))
             (Some (resp_spiritualThemes resp)) (resp_suggestedActions resp)
             (resp_relatedTopics resp) w3 = (Inr am, w4)"
          "addMessage_io cc am w4 = (Inl e, w')"
    | (f) um w1 cc w2 resp w3 am w4 fc w5 where "?step1 w = (Inr um, w1)"
          "?step2 um w1 = (Inr cc, w2)"
          "call_repo SendChatMessageCall (sendChatMessage repo) (?chatRequest cc) w2 = (Inr resp, w3)"
          "createAssistantMessage_io (resp_message resp) (Some (resp_conversationId resp))
             (Some (resp_spiritualThemes resp)) (resp_suggestedActions resp)
             (resp_relatedTopics resp) w3 = (Inr am, w4)"
          "addMessage_io cc am w4 = (Inr fc, w5)"
          "call_repo SaveConversationCall (saveConversation repo) fc w5 = (Inl e, w')"
    using assms v by (auto simp: SendChatMessage_try_def bind_io_Inl return_io_def)
  then show ?thesis
  proof cases
    case a
    then show ?thesis by (auto dest: calls_createUserMessage_io)
  next
    case b
    have "calls w' = calls w"
      using calls_createUserMessage_io [OF b(1)] c2 [OF b(2)] by simp
    then show ?thesis by simp
  next
    case c
    have "calls w' = calls w @ [SendChatMessageCall (?chatRequest cc)]"
      using calls_createUserMessage_io [OF c(1)] c2 [OF c(2)] calls_call_repo [OF c(3)] by simp
    then show ?thesis by auto
  next
    case d
    have "calls w' = calls w @ [SendChatMessageCall (?chatRequest cc)]"
      using calls_createUserMessage_io [OF d(1)] c2 [OF d(2)] calls_call_repo [OF d(3)]
        calls_createAssistantMessage_io [OF d(4)] by simp
    then show ?thesis by auto
  next
    case e
    have "calls w' = calls w @ [SendChatMessageCall (?chatRequest cc)]"
      using calls_createUserMessage_io [OF e(1)] c2 [OF e(2)] calls_call_repo [OF e(3)]
        calls_createAssistantMessage_io [OF e(4)] calls_addMessage_io [OF e(5)] by simp
    then show ?thesis by auto
  next
    case f
    have "calls w' = calls w @ [SendChatMessageCall (?chatRequest cc), SaveConversationCall fc]"
      using calls_createUserMessage_io [OF f(1)] c2 [OF f(2)] calls_call_repo [OF f(3)]
        calls_createAssistantMessage_io [OF f(4)] calls_addMessage_io [OF f(5)]
        calls_call_repo [OF f(6)] by simp
    moreover have "fst (saveConversation repo fc (backend w5)) = Inl e"
      using call_repo_outcome [OF f(6)] by simp
    ultimately show ?thesis by auto
  qed
qed

text \<open>
  Claim C2, as amended. \<^verbatim>\<open>execute\<close> validates in this order, the first failure wins, and on
  a failure it returns with the world as it found it: no repository call is logged, the backend
  has not moved and not even the clock has been read. A message that is empty after trimming
  gives \<^verbatim>\<open>Message cannot be empty\<close>; otherwise a message longer than 2000 gives the
  message-too-long error; otherwise an experience level that is present, is not the empty
  string, and is none of \<^verbatim>\<open>beginner\<close>, \<^verbatim>\<open>intermediate\<close>, \<^verbatim>\<open>advanced\<close> gives the
  invalid-experience-level error.
\<close>

theorem SendChatMessage_validation_order:
  "(trim (req_message request) = [] \<longrightarrow>
      SendChatMessage_execute repo request w =
        (Inr \<lparr>scm_success = False, scm_updatedConversation = None, scm_assistantMessage = None,
              scm_error = Some ''Message cannot be empty''\<rparr>, w))
   \<and> (trim (req_message request) \<noteq> [] \<and> length (req_message request) > 2000 \<longrightarrow>
      SendChatMessage_execute repo request w =
        (Inr \<lparr>scm_success = False, scm_updatedConversation = None, scm_assistantMessage = None,
              scm_error = Some ''Message too long. Please keep messages under 2000 characters.''\<rparr>, w))
   \<and> (trim (req_message request) \<noteq> [] \<and> length (req_message request) \<le> 2000 \<and>
      req_userContext request = Some userContext \<and> uc_experienceLevel userContext = Some level \<and>
      level \<noteq> [] \<and> level \<notin> {''beginner'', ''intermediate'', ''advanced''} \<longrightarrow>
      SendChatMessage_execute repo request w =
        (Inr \<lparr>scm_success = False, scm_updatedConversation = None, scm_assistantMessage = None,
              scm_error = Some ''Invalid experience level. Must be beginner, intermediate, or advanced.''\<rparr>, w))"
  by (auto simp: SendChatMessage_validation_error SendChatMessage_validateRequest_def truthy_def)

theorem SendChatMessage_validation_order_witness:
  "SendChatMessage_execute (sample_repository None None)
      \<lparr>req_message = '''', req_conversation = None, req_userContext = None,
       req_location = None, req_timeOfDay = None\<rparr> sample_world =
     (Inr \<lparr>scm_success = False, scm_updatedConversation = None, scm_assistantMessage = None,
           scm_error = Some ''Message cannot be empty''\<rparr>, sample_world)
   \<and> SendChatMessage_execute (sample_repository None None)
      \<lparr>req_message = replicate 2001 (CHR ''a''), req_conversation = None, req_userContext = None,
       req_location = None, req_timeOfDay = None\<rparr> sample_world =
     (Inr \<lparr>scm_success = False, scm_updatedConversation = None, scm_assistantMessage = None,
           scm_error = Some ''Message too long. Please keep messages under 2000 characters.''\<rparr>,
      sample_world)
   \<and> SendChatMessage_execute (sample_repository None None)
      \<lparr>req_message = ''Hello'', req_conversation = None,
       req_userContext = Some \<lparr>uc_spiritualInterests = None, uc_experienceLevel = Some ''expert'',
                               uc_preferredPractices = None\<rparr>,
       req_location = None, req_timeOfDay = None\<rparr> sample_world =
     (Inr \<lparr>scm_success = False, scm_updatedConversation = None, scm_assistantMessage = None,
           scm_error = Some ''Invalid experience level. Must be beginner, intermediate, or advanced.''\<rparr>,
      sample_world)"
proof -
  have t: "trim '''' = []" "trim (replicate 2001 (CHR ''a'')) \<noteq> []" "trim ''Hello'' \<noteq> []"
    by (simp_all add: trim_Nil_iff list_all_iff isWhiteSpace_def)
  show ?thesis
    using
      SendChatMessage_validation_order
        [where request = "\<lparr>req_message = '''', req_conversation = None, req_userContext = None,
             req_location = None, req_timeOfDay = None\<rparr>"
           and repo = "sample_repository None None" and w = sample_world]
      SendChatMessage_validation_order
        [where request = "\<lparr>req_message = replicate 2001 (CHR ''a''), req_conversation = None,
             req_userContext = None, req_location = None, req_timeOfDay = None\<rparr>"
           and repo = "sample_repository None None" and w = sample_world]
      SendChatMessage_validation_order
        [where request = "\<lparr>req_message = ''Hello'', req_conversation = None,
             req_userContext = Some \<lparr>uc_spiritualInterests = None,
                uc_experienceLevel = Some ''expert'', uc_preferredPractices = None\<rparr>,
             req_location = None, req_timeOfDay = None\<rparr>"
           and repo = "sample_repository None None" and w = sample_world
           and userContext = "\<lparr>uc_spiritualInterests = None,
                uc_experienceLevel = Some ''expert'', uc_preferredPractices = None\<rparr>"
           and level = "''expert''"]
    by (simp add: t)
qed

text \<open>The claim as it was stated fails for an experience level that is present and is the
  empty string: the guard \<^verbatim>\<open>experienceLevel && ...\<close> takes it for absent, validation
  passes, and the run goes on to both repository calls and succeeds.\<close>

theorem SendChatMessage_validation_counterexample:
  "SendChatMessage_validateRequest
      \<lparr>req_message = ''Hello'', req_conversation = None,
       req_userContext = Some \<lparr>uc_spiritualInterests = None, uc_experienceLevel = Some '''',
                               uc_preferredPractices = None\<rparr>,
       req_location = None, req_timeOfDay = None\<rparr> = None
   \<and> (case SendChatMessage_execute (sample_repository None None)
        \<lparr>req_message = ''Hello'', req_conversation = None,
         req_userContext = Some \<lparr>uc_spiritualInterests = None, uc_experienceLevel = Some '''',
                                 uc_preferredPractices = None\<rparr>,
         req_location = None, req_timeOfDay = None\<rparr> sample_world of
        (Inr result, w') \<Rightarrow>
          scm_success result \<and> scm_error result = None \<and> length (calls w') = 2
      | (Inl e, w') \<Rightarrow> False)"
  by code_simp

text \<open>
  Claim C10. \<^verbatim>\<open>execute\<close> never throws, and whatever the request: the log of repository
  calls grows by nothing, by the chat request, or by the chat request and the save; the chat
  request carries the message exactly as it was received, untrimmed. When the run succeeds, the
  resulting conversation is the one that was saved; its messages are those of the conversation
  in the request (none if there was none) followed by the user message and the assistant
  message; and the content of the user message is the trimmed message, so that what was sent
  and what is stored differ exactly by white space before and after it.
\<close>

theorem SendChatMessage_sent_and_stored_message:
  "(case SendChatMessage_execute repo request w of
      (Inl e, w') \<Rightarrow> False
    | (Inr result, w') \<Rightarrow>
        (calls w' = calls w
         \<or> (\<exists>chatRequest. calls w' = calls w @ [SendChatMessageCall chatRequest] \<and>
               cr_message chatRequest = req_message request)
         \<or> (\<exists>chatRequest final.
               calls w' = calls w @ [SendChatMessageCall chatRequest, SaveConversationCall final] \<and>
               cr_message chatRequest = req_message request))
        \<and> (scm_success result \<longrightarrow>
             (\<exists>userMessage assistantMessage final chatRequest pre post.
                scm_updatedConversation result = Some final \<and>
                scm_assistantMessage result = Some assistantMessage \<and>
                c_messages final =
                  (case req_conversation request of Some c \<Rightarrow> c_messages c | None \<Rightarrow> [])
                  @ [userMessage, assistantMessage] \<and>
                m_role userMessage = ''user'' \<and>
                m_content userMessage = trim (req_message request) \<and>
                calls w' = calls w @ [SendChatMessageCall chatRequest, SaveConversationCall final] \<and>
                cr_message chatRequest = req_message request \<and>
                cr_message chatRequest = pre @ m_content userMessage @ post \<and>
                list_all isWhiteSpace pre \<and> list_all isWhiteSpace post)))"
proof -
  obtain pre post where d: "req_message request = pre @ trim (req_message request) @ post"
      "list_all isWhiteSpace pre" "list_all isWhiteSpace post"
    using trim_decompose [of "req_message request"] by blast
  consider
      (returned) result w' where "SendChatMessage_try repo request w = (Inr result, w')"
    | (thrown) e w' where "SendChatMessage_try repo request w = (Inl e, w')"
    by (cases "SendChatMessage_try repo request w") (metis sumE)
  then show ?thesis
  proof cases
    case returned
    then have x: "SendChatMessage_execute repo request w = (Inr result, w')"
      by (simp add: SendChatMessage_execute_def try_catch_def)
    from SendChatMessage_try_Inr [OF returned] show ?thesis
    proof
      assume "SendChatMessage_validateRequest request \<noteq> None \<and> w' = w \<and>
          result = \<lparr>scm_success = False, scm_updatedConversation = None,
                    scm_assistantMessage = None,
                    scm_error = SendChatMessage_validateRequest request\<rparr>"
      then show ?thesis unfolding x by simp
    next
      assume "SendChatMessage_validateRequest request = None \<and>
          (\<exists>userMessage assistantMessage final chatRequest.
             result = \<lparr>scm_success = True, scm_updatedConversation = Some final,
                       scm_assistantMessage = Some assistantMessage, scm_error = None\<rparr> \<and>
             c_messages final =
               (case req_conversation request of Some c \<Rightarrow> c_messages c | None \<Rightarrow> [])
               @ [userMessage, assistantMessage] \<and>
             m_role userMessage = ''user'' \<and> m_content userMessage = trim (req_message request) \<and>
             calls w' = calls w @ [SendChatMessageCall chatRequest, SaveConversationCall final] \<and>
             cr_message chatRequest = req_message request)"
      then obtain userMessage assistantMessage final chatRequest where s:
        "result = \<lparr>scm_success = True, scm_updatedConversation = Some final,
                       scm_assistantMessage = Some assistantMessage, scm_error = None\<rparr>"
        "c_messages final =
               (case req_conversation request of Some c \<Rightarrow> c_messages c | None \<Rightarrow> [])
               @ [userMessage, assistantMessage]"
        "m_role userMessage = ''user''" "m_content userMessage = trim (req_message request)"
        "calls w' = calls w @ [SendChatMessageCall chatRequest, SaveConversationCall final]"
        "cr_message chatRequest = req_message request"
        by blast
      have p: "cr_message chatRequest = pre @ m_content userMessage @ post"
        using d(1) s(4) s(6) by simp
      have r: "scm_updatedConversation result = Some final"
        "scm_assistantMessage result = Some assistantMessage"
        using s(1) by simp_all
      have "\<exists>userMessage assistantMessage final chatRequest pre post.
                scm_updatedConversation result = Some final \<and>
                scm_assistantMessage result = Some assistantMessage \<and>
                c_messages final =
                  (case req_conversation request of Some c \<Rightarrow> c_messages c | None \<Rightarrow> [])
                  @ [userMessage, assistantMessage] \<and>
                m_role userMessage = ''user'' \<and>
                m_content userMessage = trim (req_message request) \<and>
                calls w' = calls w @ [SendChatMessageCall chatRequest, SaveConversationCall final] \<and>
                cr_message chatRequest = req_message request \<and>
                cr_message chatRequest = pre @ m_content userMessage @ post \<and>
                list_all isWhiteSpace pre \<and> list_all isWhiteSpace post"
        using r s(2-6) p d(2,3) by blast
      moreover have "\<exists>chatRequest final.
               calls w' = calls w @ [SendChatMessageCall chatRequest, SaveConversationCall final] \<and>
               cr_message chatRequest = req_message request"
        using s(5,6) by blast
      ultimately show ?thesis
        unfolding x by (simp only: prod.case sum.case) blast
    qed
  next
    case thrown
    then have x: "SendChatMessage_execute repo request w =
        (Inr \<lparr>scm_success = False, scm_updatedConversation = None, scm_assistantMessage = None,
              scm_error = Some (SendChatMessage_handleError e)\<rparr>, w')"
      by (simp add: SendChatMessage_execute_def try_catch_def return_io_def)
    from SendChatMessage_try_Inl [OF thrown] show ?thesis
      unfolding x by auto
  qed
qed

theorem SendChatMessage_sent_and_stored_message_witness:
  "(case SendChatMessage_execute (sample_repository None None)
        \<lparr>req_message = ''  How can I meditate?  '', req_conversation = None,
         req_userContext = None, req_location = None, req_timeOfDay = None\<rparr> sample_world of
      (Inl e, w') \<Rightarrow> False
    | (Inr result, w') \<Rightarrow>
        scm_success result \<and>
        (\<exists>userMessage assistantMessage final chatRequest.
           scm_updatedConversation result = Some final \<and>
           c_messages final = [userMessage, assistantMessage] \<and>
           m_content userMessage = ''How can I meditate?'' \<and>
           calls w' = [SendChatMessageCall chatRequest, SaveConversationCall final] \<and>
           cr_message chatRequest = ''  How can I meditate?  ''))"
proof -
  let ?request = "\<lparr>req_message = ''  How can I meditate?  '', req_conversation = None,
         req_userContext = None, req_location = None, req_timeOfDay = None\<rparr>"
  have s: "(case SendChatMessage_execute (sample_repository None None) ?request
             (sample_world :: (nat, ai_call) world) of
      (Inl e, w') \<Rightarrow> False
    | (Inr result, w') \<Rightarrow> scm_success result)"
    by code_simp
  have t: "trim ''  How can I meditate?  '' = ''How can I meditate?''"
    by (simp add: trim_def isWhiteSpace_def)
  have c: "calls (sample_world :: (nat, ai_call) world) = []"
    by (simp add: sample_world_def)
  show ?thesis
    using SendChatMessage_sent_and_stored_message
        [where repo = "sample_repository None None" and request = ?request
           and w = sample_world] s
    by (auto simp: t c split: prod.splits sum.splits)
qed

subsection \<open>LoadConversations\<close>

lemma LoadConversations_validation_error:
  "LoadConversations_validateRequest request = Some e \<Longrightarrow>
   LoadConversations_execute repo request w =
     (Inr \<lparr>lc_success = False, lc_conversations = None, lc_error = Some e\<rparr>, w)"
  by (simp add: LoadConversations_execute_def LoadConversations_try_def try_catch_def return_io_def)

lemma LoadConversations_delegates:
  "LoadConversations_validateRequest request = None \<Longrightarrow>
   LoadConversations_execute repo request w =
     (Inr (case fst (loadConversations repo (lc_limit request) (backend w)) of
             Inr conversations \<Rightarrow>
               \<lparr>lc_success = True, lc_conversations = Some conversations, lc_error = None\<rparr>
           | Inl e \<Rightarrow>
               \<lparr>lc_success = False, lc_conversations = None,
                lc_error = Some (LoadConversations_handleError e)\<rparr>),
      w\<lparr>backend := snd (loadConversations repo (lc_limit request) (backend w)),
        calls := calls w @ [LoadConversationsCall (lc_limit request)]\<rparr>)"
  by (simp add: LoadConversations_execute_def LoadConversations_try_def try_catch_def
      return_io_def bind_io_def call_repo_def Let_def split: prod.splits sum.splits)

text \<open>
  Claim C9. A provided limit that is not an integer, or is below 1, gives
  \<^verbatim>\<open>Limit must be a positive integer\<close>; an integer limit above 100 gives
  \<^verbatim>\<open>Limit cannot exceed 100 conversations\<close> (a limit above 100 that is not an integer
  falls under the first rule); in both cases the world is left as it was found, so the
  repository is not called. An omitted limit, or an integer limit from 1 to 100, makes exactly
  one call of the repository's \<^verbatim>\<open>loadConversations\<close> with the limit as given, and the
  result is the success carrying the list the repository returned, or the failure carrying its
  normalized error. In every case \<^verbatim>\<open>execute\<close> returns, and a successful result holds a
  list of conversations.
\<close>

theorem LoadConversations_contract:
  "(lc_limit request = Some limit \<and> (\<not> Number_isInteger limit \<or> number_less limit (Finite 1)) \<longrightarrow>
      LoadConversations_execute repo request w =
        (Inr \<lparr>lc_success = False, lc_conversations = None,
              lc_error = Some ''Limit must be a positive integer''\<rparr>, w))
   \<and> (lc_limit request = Some limit \<and> Number_isInteger limit \<and> number_less (Finite 100) limit \<longrightarrow>
      LoadConversations_execute repo request w =
        (Inr \<lparr>lc_success = False, lc_conversations = None,
              lc_error = Some ''Limit cannot exceed 100 conversations''\<rparr>, w))
   \<and> (lc_limit request = None \<or>
       lc_limit request = Some limit \<and> Number_isInteger limit \<and> \<not> number_less limit (Finite 1) \<and>
       \<not> number_less (Finite 100) limit \<longrightarrow>
      LoadConversations_execute repo request w =
        (Inr (case fst (loadConversations repo (lc_limit request) (backend w)) of
                Inr conversations \<Rightarrow>
                  \<lparr>lc_success = True, lc_conversations = Some conversations, lc_error = None\<rparr>
              | Inl e \<Rightarrow>
                  \<lparr>lc_success = False, lc_conversations = None,
                   lc_error = Some (LoadConversations_handleError e)\<rparr>),
         w\<lparr>backend := snd (loadConversations repo (lc_limit request) (backend w)),
           calls := calls w @ [LoadConversationsCall (lc_limit request)]\<rparr>))
   \<and> (case LoadConversations_execute repo request w of
        (Inl e, w') \<Rightarrow> False
      | (Inr result, w') \<Rightarrow> lc_success result \<longrightarrow> (\<exists>conversations. lc_conversations result = Some conversations))"
proof -
  have big: "number_less limit (Finite 1) \<Longrightarrow> number_less (Finite 100) limit \<Longrightarrow> False"
    by (cases limit) simp_all
  have 1: "lc_limit request = Some limit \<Longrightarrow>
      \<not> Number_isInteger limit \<or> number_less limit (Finite 1) \<Longrightarrow>
      LoadConversations_validateRequest request = Some ''Limit must be a positive integer''"
    by (auto simp: LoadConversations_validateRequest_def)
  have 2: "lc_limit request = Some limit \<Longrightarrow> Number_isInteger limit \<Longrightarrow>
      number_less (Finite 100) limit \<Longrightarrow>
      LoadConversations_validateRequest request = Some ''Limit cannot exceed 100 conversations''"
    using big by (auto simp: LoadConversations_validateRequest_def)
  have 3: "lc_limit request = None \<or>
       lc_limit request = Some limit \<and> Number_isInteger limit \<and> \<not> number_less limit (Finite 1) \<and>
       \<not> number_less (Finite 100) limit \<Longrightarrow>
      LoadConversations_validateRequest request = None"
    by (auto simp: LoadConversations_validateRequest_def)
  have 4: "case LoadConversations_execute repo request w of
        (Inl e, w') \<Rightarrow> False
      | (Inr result, w') \<Rightarrow> lc_success result \<longrightarrow> (\<exists>conversations. lc_conversations result = Some conversations)"
    by (cases "LoadConversations_validateRequest request")
       (auto simp: LoadConversations_validation_error LoadConversations_delegates
             split: sum.splits)
  show ?thesis
    using 1 2 3 4
    by (simp add: LoadConversations_validation_error LoadConversations_delegates)
qed

theorem LoadConversations_contract_witness:
  "LoadConversations_execute (sample_repository None None) \<lparr>lc_limit = Some (Finite 0)\<rparr> sample_world =
     (Inr \<lparr>lc_success = False, lc_conversations = None,
           lc_error = Some ''Limit must be a positive integer''\<rparr>, sample_world)
   \<and> LoadConversations_execute (sample_repository None None) \<lparr>lc_limit = Some (Finite (- 3))\<rparr>
       sample_world =
     (Inr \<lparr>lc_success = False, lc_conversations = None,
           lc_error = Some ''Limit must be a positive integer''\<rparr>, sample_world)
   \<and> LoadConversations_execute (sample_repository None None) \<lparr>lc_limit = Some (Finite (5 / 2))\<rparr>
       sample_world =
     (Inr \<lparr>lc_success = False, lc_conversations = None,
           lc_error = Some ''Limit must be a positive integer''\<rparr>, sample_world)
   \<and> LoadConversations_execute (sample_repository None None) \<lparr>lc_limit = Some NaN\<rparr> sample_world =
     (Inr \<lparr>lc_success = False, lc_conversations = None,
           lc_error = Some ''Limit must be a positive integer''\<rparr>, sample_world)
   \<and> LoadConversations_execute (sample_repository None None) \<lparr>lc_limit = Some (Finite 101)\<rparr>
       sample_world =
     (Inr \<lparr>lc_success = False, lc_conversations = None,
           lc_error = Some ''Limit cannot exceed 100 conversations''\<rparr>, sample_world)
   \<and> LoadConversations_execute (sample_repository None None) \<lparr>lc_limit = Some (Finite 10)\<rparr>
       sample_world =
     (Inr \<lparr>lc_success = True, lc_conversations = Some [], lc_error = None\<rparr>,
      sample_world\<lparr>backend := 1, calls := [LoadConversationsCall (Some (Finite 10))]\<rparr>)
   \<and> LoadConversations_execute (sample_repository None None) \<lparr>lc_limit = None\<rparr> sample_world =
     (Inr \<lparr>lc_success = True, lc_conversations = Some [], lc_error = None\<rparr>,
      sample_world\<lparr>backend := 1, calls := [LoadConversationsCall None]\<rparr>)"
proof -
  have "\<lfloor>(5 / 2)::rat\<rfloor> = 2"
    by (simp add: floor_eq_iff)
  then have h: "\<not> Number_isInteger (Finite (5 / 2))"
    by (simp add: Number_isInteger_def)
  have i: "\<not> Number_isInteger NaN"
    "Number_isInteger (Finite 0)" "Number_isInteger (Finite (- 3))"
    "Number_isInteger (Finite 101)" "Number_isInteger (Finite 10)"
    by (simp_all add: Number_isInteger_def)
  have r: "fst (loadConversations (sample_repository None None) l
                  (backend (sample_world :: (nat, ai_call) world))) = Inr []"
    "snd (loadConversations (sample_repository None None) l
                  (backend (sample_world :: (nat, ai_call) world))) = 1"
    "calls (sample_world :: (nat, ai_call) world) = []" for l
    by (simp_all add: sample_repository_def sample_world_def)
  have 1: "LoadConversations_execute (sample_repository None None) \<lparr>lc_limit = Some (Finite 0)\<rparr>
       sample_world =
     (Inr \<lparr>lc_success = False, lc_conversations = None,
           lc_error = Some ''Limit must be a positive integer''\<rparr>, sample_world)"
    using LoadConversations_contract [where request = "\<lparr>lc_limit = Some (Finite 0)\<rparr>"
        and limit = "Finite 0" and repo = "sample_repository None None" and w = sample_world,
        THEN conjunct1]
    by (simp add: i)
  have 2: "LoadConversations_execute (sample_repository None None) \<lparr>lc_limit = Some (Finite (- 3))\<rparr>
       sample_world =
     (Inr \<lparr>lc_success = False, lc_conversations = None,
           lc_error = Some ''Limit must be a positive integer''\<rparr>, sample_world)"
    using LoadConversations_contract [where request = "\<lparr>lc_limit = Some (Finite (- 3))\<rparr>"
        and limit = "Finite (- 3)" and repo = "sample_repository None None" and w = sample_world,
        THEN conjunct1]
    by (simp add: i)
  have 3: "LoadConversations_execute (sample_repository None None) \<lparr>lc_limit = Some (Finite (5 / 2))\<rparr>
       sample_world =
     (Inr \<lparr>lc_success = False, lc_conversations = None,
           lc_error = Some ''Limit must be a positive integer''\<rparr>, sample_world)"
    using LoadConversations_contract [where request = "\<lparr>lc_limit = Some (Finite (5 / 2))\<rparr>"
        and limit = "Finite (5 / 2)" and repo = "sample_repository None None" and w = sample_world,
        THEN conjunct1] h
    by simp
  have 4: "LoadConversations_execute (sample_repository None None) \<lparr>lc_limit = Some NaN\<rparr>
       sample_world =
     (Inr \<lparr>lc_success = False, lc_conversations = None,
           lc_error = Some ''Limit must be a positive integer''\<rparr>, sample_world)"
    using LoadConversations_contract [where request = "\<lparr>lc_limit = Some NaN\<rparr>"
        and limit = NaN and repo = "sample_repository None None" and w = sample_world,
        THEN conjunct1]
    by (simp add: i)
  have 5: "LoadConversations_execute (sample_repository None None) \<lparr>lc_limit = Some (Finite 101)\<rparr>
       sample_world =
     (Inr \<lparr>lc_success = False, lc_conversations = None,
           lc_error = Some ''Limit cannot exceed 100 conversations''\<rparr>, sample_world)"
    using LoadConversations_contract [where request = "\<lparr>lc_limit = Some (Finite 101)\<rparr>"
        and limit = "Finite 101" and repo = "sample_repository None None" and w = sample_world,
        THEN conjunct2, THEN conjunct1]
    by (simp add: i)
  have 6: "LoadConversations_execute (sample_repository None None) \<lparr>lc_limit = Some (Finite 10)\<rparr>
       sample_world =
     (Inr \<lparr>lc_success = True, lc_conversations = Some [], lc_error = None\<rparr>,
      sample_world\<lparr>backend := 1, calls := [LoadConversationsCall (Some (Finite 10))]\<rparr>)"
    using LoadConversations_contract [where request = "\<lparr>lc_limit = Some (Finite 10)\<rparr>"
        and limit = "Finite 10" and repo = "sample_repository None None" and w = sample_world,
        THEN conjunct2, THEN conjunct2, THEN conjunct1]
    by (simp add: i r)
  have 7: "LoadConversations_execute (sample_repository None None) \<lparr>lc_limit = None\<rparr> sample_world =
     (Inr \<lparr>lc_success = True, lc_conversations = Some [], lc_error = None\<rparr>,
      sample_world\<lparr>backend := 1, calls := [LoadConversationsCall None]\<rparr>)"
    using LoadConversations_contract [where request = "\<lparr>lc_limit = None\<rparr>"
        and limit = NaN and repo = "sample_repository None None" and w = sample_world,
        THEN conjunct2, THEN conjunct2, THEN conjunct1]
    by (simp add: r)
  show ?thesis
    using 1 2 3 4 5 6 7 by blast
qed

subsection \<open>LoginUser and RegisterUser\<close>

text \<open>
  Claim C8. With credentials that pass validation, whatever the repository rejects with, be it
  from \<^verbatim>\<open>login\<close> or from \<^verbatim>\<open>storeTokens\<close> after a successful login,
  \<^verbatim>\<open>LoginUser.execute\<close> returns a failure whose error is \<^verbatim>\<open>Invalid credentials\<close> when
  an \<^verbatim>\<open>Error\<close> with exactly that message was thrown, and the fixed text
  \<^verbatim>\<open>Login failed. Please try again.\<close> otherwise: the thrown message is not surfaced.
  \<^verbatim>\<open>RegisterUser.execute\<close>, with data that pass validation, returns
  \<^verbatim>\<open>User already exists\<close> for an \<^verbatim>\<open>Error\<close> with exactly that message, and otherwise the
  message of the thrown \<^verbatim>\<open>Error\<close> as it is (a fixed text for a thrown value that is not an
  \<^verbatim>\<open>Error\<close>).
\<close>

theorem auth_error_mapping:
  "(emailRegex_test (lg_email credentials) \<and> 8 \<le> length (lg_password credentials) \<and>
    hasUppercase (lg_password credentials) \<and> hasSpecialCharacter (lg_password credentials) \<longrightarrow>
      (login repo credentials (backend w) = (Inl t, s1) \<longrightarrow>
         LoginUser_execute repo credentials w =
           (Inr \<lparr>lg_isSuccess = False, lg_user = None, lg_tokens = None,
                 lg_error = Some (if t = Error ''Invalid credentials'' then ''Invalid credentials''
                                  else ''Login failed. Please try again.'')\<rparr>,
            w\<lparr>backend := s1, calls := calls w @ [LoginCall credentials]\<rparr>))
    \<and> (login repo credentials (backend w) = (Inr result, s1) \<and>
       storeTokens repo (auth_tokens result) s1 = (Inl t, s2) \<longrightarrow>
         LoginUser_execute repo credentials w =
           (Inr \<lparr>lg_isSuccess = False, lg_user = None, lg_tokens = None,
                 lg_error = Some (if t = Error ''Invalid credentials'' then ''Invalid credentials''
                                  else ''Login failed. Please try again.'')\<rparr>,
            w\<lparr>backend := s2,
              calls := calls w @ [LoginCall credentials, StoreTokensCall (auth_tokens result)]\<rparr>)))
   \<and> (emailRegex_test (rd_email data) \<and> 8 \<le> length (rd_password data) \<and>
      hasUppercase (rd_password data) \<and> hasSpecialCharacter (rd_password data) \<and>
      trim (rd_firstName data) \<noteq> [] \<and> trim (rd_lastName data) \<noteq> [] \<longrightarrow>
      (register repo data (backend w) = (Inl t, s1) \<longrightarrow>
         RegisterUser_execute repo data w =
           (Inr \<lparr>rd_isSuccess = False, rd_user = None, rd_tokens = None,
                 rd_error = Some (case t of
                                    Error message \<Rightarrow> message
                                  | NonError \<Rightarrow> ''Registration failed. Please try again.'')\<rparr>,
            w\<lparr>backend := s1, calls := calls w @ [RegisterCall data]\<rparr>))
    \<and> (register repo data (backend w) = (Inr result, s1) \<and>
       storeTokens repo (auth_tokens result) s1 = (Inl t, s2) \<longrightarrow>
         RegisterUser_execute repo data w =
           (Inr \<lparr>rd_isSuccess = False, rd_user = None, rd_tokens = None,
                 rd_error = Some (case t of
                                    Error message \<Rightarrow> message
                                  | NonError \<Rightarrow> ''Registration failed. Please try again.'')\<rparr>,
            w\<lparr>backend := s2,
              calls := calls w @ [RegisterCall data, StoreTokensCall (auth_tokens result)]\<rparr>)))"
  by (auto simp: LoginUser_execute_def LoginUser_try_def RegisterUser_execute_def
      RegisterUser_try_def try_catch_def bind_io_def return_io_def call_repo_def Let_def)

theorem auth_error_mapping_witness:
  "LoginUser_execute (sample_auth_repository (Some (Error ''Invalid credentials'')) None)
      \<lparr>lg_email = ''seeker@example.com'', lg_password = ''Secret#123''\<rparr> sample_world =
     (Inr \<lparr>lg_isSuccess = False, lg_user = None, lg_tokens = None,
           lg_error = Some ''Invalid credentials''\<rparr>,
      sample_world\<lparr>backend := 1,
        calls := [LoginCall \<lparr>lg_email = ''seeker@example.com'', lg_password = ''Secret#123''\<rparr>]\<rparr>)
   \<and> LoginUser_execute (sample_auth_repository (Some (Error ''Network error'')) None)
      \<lparr>lg_email = ''seeker@example.com'', lg_password = ''Secret#123''\<rparr> sample_world =
     (Inr \<lparr>lg_isSuccess = False, lg_user = None, lg_tokens = None,
           lg_error = Some ''Login failed. Please try again.''\<rparr>,
      sample_world\<lparr>backend := 1,
        calls := [LoginCall \<lparr>lg_email = ''seeker@example.com'', lg_password = ''Secret#123''\<rparr>]\<rparr>)
   \<and> LoginUser_execute (sample_auth_repository None (Some (Error ''Failed to store tokens'')))
      \<lparr>lg_email = ''seeker@example.com'', lg_password = ''Secret#123''\<rparr> sample_world =
     (Inr \<lparr>lg_isSuccess = False, lg_user = None, lg_tokens = None,
           lg_error = Some ''Login failed. Please try again.''\<rparr>,
      sample_world\<lparr>backend := 2,
        calls := [LoginCall \<lparr>lg_email = ''seeker@example.com'', lg_password = ''Secret#123''\<rparr>,
                  StoreTokensCall \<lparr>accessToken = ''access'', refreshToken = ''refresh''\<rparr>]\<rparr>)
   \<and> RegisterUser_execute (sample_auth_repository (Some (Error ''User already exists'')) None)
      \<lparr>rd_email = ''seeker@example.com'', rd_password = ''Secret#123'', rd_firstName = ''Ada'',
       rd_lastName = ''Lovelace''\<rparr> sample_world =
     (Inr \<lparr>rd_isSuccess = False, rd_user = None, rd_tokens = None,
           rd_error = Some ''User already exists''\<rparr>,
      sample_world\<lparr>backend := 1,
        calls := [RegisterCall \<lparr>rd_email = ''seeker@example.com'', rd_password = ''Secret#123'',
                    rd_firstName = ''Ada'', rd_lastName = ''Lovelace''\<rparr>]\<rparr>)
   \<and> RegisterUser_execute (sample_auth_repository (Some (Error ''Registration failed'')) None)
      \<lparr>rd_email = ''seeker@example.com'', rd_password = ''Secret#123'', rd_firstName = ''Ada'',
       rd_lastName = ''Lovelace''\<rparr> sample_world =
     (Inr \<lparr>rd_isSuccess = False, rd_user = None, rd_tokens = None,
           rd_error = Some ''Registration failed''\<rparr>,
      sample_world\<lparr>backend := 1,
        calls := [RegisterCall \<lparr>rd_email = ''seeker@example.com'', rd_password = ''Secret#123'',
                    rd_firstName = ''Ada'', rd_lastName = ''Lovelace''\<rparr>]\<rparr>)
   \<and> RegisterUser_execute (sample_auth_repository None (Some (Error ''Failed to store tokens'')))
      \<lparr>rd_email = ''seeker@example.com'', rd_password = ''Secret#123'', rd_firstName = ''Ada'',
       rd_lastName = ''Lovelace''\<rparr> sample_world =
     (Inr \<lparr>rd_isSuccess = False, rd_user = None, rd_tokens = None,
           rd_error = Some ''Failed to store tokens''\<rparr>,
      sample_world\<lparr>backend := 2,
        calls := [RegisterCall \<lparr>rd_email = ''seeker@example.com'', rd_password = ''Secret#123'',
                    rd_firstName = ''Ada'', rd_lastName = ''Lovelace''\<rparr>,
                  StoreTokensCall \<lparr>accessToken = ''access'', refreshToken = ''refresh''\<rparr>]\<rparr>)"
proof -
  let ?credentials = "\<lparr>lg_email = ''seeker@example.com'', lg_password = ''Secret#123''\<rparr>"
  let ?data = "\<lparr>rd_email = ''seeker@example.com'', rd_password = ''Secret#123'',
                 rd_firstName = ''Ada'', rd_lastName = ''Lovelace''\<rparr>"
  have v: "emailRegex_test ''seeker@example.com''" "hasUppercase ''Secret#123''"
    "hasSpecialCharacter ''Secret#123''"
    by code_simp+
  have n: "trim ''Ada'' \<noteq> []" "trim ''Lovelace'' \<noteq> []"
    by (simp_all add: trim_Nil_iff isWhiteSpace_def)
  have w: "backend (sample_world :: (nat, auth_call) world) = 0"
    "calls (sample_world :: (nat, auth_call) world) = []"
    by (simp_all add: sample_world_def)
  have 1: "LoginUser_execute (sample_auth_repository (Some (Error ''Invalid credentials'')) None)
      ?credentials sample_world =
     (Inr \<lparr>lg_isSuccess = False, lg_user = None, lg_tokens = None,
           lg_error = Some ''Invalid credentials''\<rparr>,
      sample_world\<lparr>backend := 1, calls := [LoginCall ?credentials]\<rparr>)"
    using auth_error_mapping
      [where credentials = ?credentials and w = sample_world
         and repo = "sample_auth_repository (Some (Error ''Invalid credentials'')) None"
         and t = "Error ''Invalid credentials''" and ?s1.0 = 1, THEN conjunct1]
    by (simp add: v w sample_auth_repository_def)
  have 2: "LoginUser_execute (sample_auth_repository (Some (Error ''Network error'')) None)
      ?credentials sample_world =
     (Inr \<lparr>lg_isSuccess = False, lg_user = None, lg_tokens = None,
           lg_error = Some ''Login failed. Please try again.''\<rparr>,
      sample_world\<lparr>backend := 1, calls := [LoginCall ?credentials]\<rparr>)"
    using auth_error_mapping
      [where credentials = ?credentials and w = sample_world
         and repo = "sample_auth_repository (Some (Error ''Network error'')) None"
         and t = "Error ''Network error''" and ?s1.0 = 1, THEN conjunct1]
    by (simp add: v w sample_auth_repository_def)
  have 3: "LoginUser_execute (sample_auth_repository None (Some (Error ''Failed to store tokens'')))
      ?credentials sample_world =
     (Inr \<lparr>lg_isSuccess = False, lg_user = None, lg_tokens = None,
           lg_error = Some ''Login failed. Please try again.''\<rparr>,
      sample_world\<lparr>backend := 2,
        calls := [LoginCall ?credentials,
                  StoreTokensCall \<lparr>accessToken = ''access'', refreshToken = ''refresh''\<rparr>]\<rparr>)"
    using auth_error_mapping
      [where credentials = ?credentials and w = sample_world
         and repo = "sample_auth_repository None (Some (Error ''Failed to store tokens''))"
         and t = "Error ''Failed to store tokens''" and ?s1.0 = 1 and ?s2.0 = 2
         and result = "\<lparr>auth_user = ''user-123'',
               auth_tokens = \<lparr>accessToken = ''access'', refreshToken = ''refresh''\<rparr>\<rparr>",
         THEN conjunct1]
    by (simp add: v w sample_auth_repository_def)
  have 4: "RegisterUser_execute (sample_auth_repository (Some (Error ''User already exists'')) None)
      ?data sample_world =
     (Inr \<lparr>rd_isSuccess = False, rd_user = None, rd_tokens = None,
           rd_error = Some ''User already exists''\<rparr>,
      sample_world\<lparr>backend := 1, calls := [RegisterCall ?data]\<rparr>)"
    using auth_error_mapping
      [where data = ?data and w = sample_world
         and repo = "sample_auth_repository (Some (Error ''User already exists'')) None"
         and t = "Error ''User already exists''" and ?s1.0 = 1, THEN conjunct2]
    by (simp add: v n w sample_auth_repository_def)
  have 5: "RegisterUser_execute (sample_auth_repository (Some (Error ''Registration failed'')) None)
      ?data sample_world =
     (Inr \<lparr>rd_isSuccess = False, rd_user = None, rd_tokens = None,
           rd_error = Some ''Registration failed''\<rparr>,
      sample_world\<lparr>backend := 1, calls := [RegisterCall ?data]\<rparr>)"
    using auth_error_mapping
      [where data = ?data and w = sample_world
         and repo = "sample_auth_repository (Some (Error ''Registration failed'')) None"
         and t = "Error ''Registration failed''" and ?s1.0 = 1, THEN conjunct2]
    by (simp add: v n w sample_auth_repository_def)
  have 6: "RegisterUser_execute (sample_auth_repository None (Some (Error ''Failed to store tokens'')))
      ?data sample_world =
     (Inr \<lparr>rd_isSuccess = False, rd_user = None, rd_tokens = None,
           rd_error = Some ''Failed to store tokens''\<rparr>,
      sample_world\<lparr>backend := 2,
        calls := [RegisterCall ?data,
                  StoreTokensCall \<lparr>accessToken = ''access'', refreshToken = ''refresh''\<rparr>]\<rparr>)"
    using auth_error_mapping
      [where data = ?data and w = sample_world
         and repo = "sample_auth_repository None (Some (Error ''Failed to store tokens''))"
         and t = "Error ''Failed to store tokens''" and ?s1.0 = 1 and ?s2.0 = 2
         and result = "\<lparr>auth_user = ''user-123'',
               auth_tokens = \<lparr>accessToken = ''access'', refreshToken = ''refresh''\<rparr>\<rparr>",
         THEN conjunct2]
    by (simp add: v n w sample_auth_repository_def)
  show ?thesis
    using 1 2 3 4 5 6 by blast
qed

subsection \<open>RequestAstrologyReading\<close>

lemma RequestAstrologyReading_validation_error:
  "RequestAstrologyReading_validateRequest parse request w = (Some e, w1) \<Longrightarrow>
   RequestAstrologyReading_execute parse repo request w =
     (Inr \<lparr>rar_success = False, rar_reading = None, rar_error = Some e\<rparr>, w1)"
  by (simp add: RequestAstrologyReading_execute_def RequestAstrologyReading_try_def try_catch_def
      return_io_def)

text \<open>
  Claim C7, as amended. For every request whose \<^verbatim>\<open>birthInfo\<close> passes
  \<^verbatim>\<open>validateBirthInfo\<close> and whose \<^verbatim>\<open>readingType\<close> is not blank and is at most 100
  characters long: if the trimmed reading type is \<^verbatim>\<open>compatibility\<close>,
  \<^verbatim>\<open>composite_chart\<close> or \<^verbatim>\<open>synastry\<close> and there is no partner birth info,
  \<^verbatim>\<open>execute\<close> fails with \<^verbatim>\<open>Partner birth information is required for ... reading\<close>;
  if it is any other allowed type and partner birth info is given, it fails with
  \<^verbatim>\<open>Partner birth info is not needed for ... reading\<close>; if it is outside the allowed set,
  it fails with the invalid-reading-type error that lists the allowed types. In each case the
  world is the one validation of the birth info left: the repository is not called.
\<close>

theorem RequestAstrologyReading_partner_rule:
  assumes "validateBirthInfo parse (rar_birthInfo request) ''Your'' w = (None, w1)"
    and "trim (rar_readingType request) \<noteq> []"
    and "length (rar_readingType request) \<le> 100"
  shows
  "(trim (rar_readingType request) \<in> {''compatibility'', ''composite_chart'', ''synastry''} \<and>
    rar_partnerBirthInfo request = None \<longrightarrow>
      RequestAstrologyReading_execute parse repo request w =
        (Inr \<lparr>rar_success = False, rar_reading = None,
              rar_error = Some (''Partner birth information is required for ''
                                @ rar_readingType request @ '' reading'')\<rparr>, w1))
   \<and> (trim (rar_readingType request) \<in>
        {''natal_chart'', ''daily_horoscope'', ''transit'', ''solar_return'', ''lunar_return''} \<and>
      rar_partnerBirthInfo request = Some partner \<longrightarrow>
      RequestAstrologyReading_execute parse repo request w =
        (Inr \<lparr>rar_success = False, rar_reading = None,
              rar_error = Some (''Partner birth info is not needed for ''
                                @ rar_readingType request @ '' reading'')\<rparr>, w1))
   \<and> (trim (rar_readingType request) \<notin>
        {''natal_chart'', ''daily_horoscope'', ''compatibility'', ''transit'', ''solar_return'',
         ''lunar_return'', ''composite_chart'', ''synastry''} \<longrightarrow>
      RequestAstrologyReading_execute parse repo request w =
        (Inr \<lparr>rar_success = False, rar_reading = None,
              rar_error = Some (''Invalid reading type. Allowed types: natal_chart, ''
                @ ''daily_horoscope, compatibility, transit, solar_return, lunar_return, ''
                @ ''composite_chart, synastry'')\<rparr>, w1))"
proof -
  have j: "join '', '' allowedReadingTypes =
      ''natal_chart, daily_horoscope, compatibility, transit, solar_return, lunar_return, ''
      @ ''composite_chart, synastry''"
    by (simp add: allowedReadingTypes_def)
  have 1: "trim (rar_readingType request) \<in> {''compatibility'', ''composite_chart'', ''synastry''} \<Longrightarrow>
      rar_partnerBirthInfo request = None \<Longrightarrow>
      RequestAstrologyReading_validateRequest parse request w =
        (Some (''Partner birth information is required for '' @ rar_readingType request
               @ '' reading''), w1)"
    using assms
    by (auto simp: RequestAstrologyReading_validateRequest_def allowedReadingTypes_def
        partnerReadingTypes_def)
  have 2: "trim (rar_readingType request) \<in>
        {''natal_chart'', ''daily_horoscope'', ''transit'', ''solar_return'', ''lunar_return''} \<Longrightarrow>
      rar_partnerBirthInfo request = Some partner \<Longrightarrow>
      RequestAstrologyReading_validateRequest parse request w =
        (Some (''Partner birth info is not needed for '' @ rar_readingType request
               @ '' reading''), w1)"
    using assms
    by (auto simp: RequestAstrologyReading_validateRequest_def allowedReadingTypes_def
        partnerReadingTypes_def)
  have 3: "trim (rar_readingType request) \<notin>
        {''natal_chart'', ''daily_horoscope'', ''compatibility'', ''transit'', ''solar_return'',
         ''lunar_return'', ''composite_chart'', ''synastry''} \<Longrightarrow>
      RequestAstrologyReading_validateRequest parse request w =
        (Some (''Invalid reading type. Allowed types: '' @ join '', '' allowedReadingTypes), w1)"
    using assms
    by (simp add: RequestAstrologyReading_validateRequest_def allowedReadingTypes_def)
  show ?thesis
    using 1 2 3 unfolding j
    by (auto dest!: RequestAstrologyReading_validation_error [where repo = repo]
        simp del: insert_iff)
qed

theorem RequestAstrologyReading_partner_rule_witness:
  "(let birthInfo = \<lparr>dateOfBirth = ''1990-01-15'', timeOfBirth = ''14:30'',
                      placeOfBirth = ''Paris'', timezone = Some ''Europe/Paris''\<rparr>;
        w1 = sample_world\<lparr>ticks := 1\<rparr>
    in validateBirthInfo sample_parse birthInfo ''Your'' sample_world = (None, w1) \<and>
       RequestAstrologyReading_execute sample_parse (sample_repository None None)
         \<lparr>rar_birthInfo = birthInfo, rar_readingType = ''compatibility'',
          rar_partnerBirthInfo = None\<rparr> sample_world =
         (Inr \<lparr>rar_success = False, rar_reading = None,
               rar_error = Some ''Partner birth information is required for compatibility reading''\<rparr>,
          w1) \<and>
       RequestAstrologyReading_execute sample_parse (sample_repository None None)
         \<lparr>rar_birthInfo = birthInfo, rar_readingType = ''natal_chart'',
          rar_partnerBirthInfo = Some birthInfo\<rparr> sample_world =
         (Inr \<lparr>rar_success = False, rar_reading = None,
               rar_error = Some ''Partner birth info is not needed for natal_chart reading''\<rparr>,
          w1) \<and>
       RequestAstrologyReading_execute sample_parse (sample_repository None None)
         \<lparr>rar_birthInfo = birthInfo, rar_readingType = ''tarot'',
          rar_partnerBirthInfo = None\<rparr> sample_world =
         (Inr \<lparr>rar_success = False, rar_reading = None,
               rar_error = Some (''Invalid reading type. Allowed types: natal_chart, ''
                 @ ''daily_horoscope, compatibility, transit, solar_return, lunar_return, ''
                 @ ''composite_chart, synastry'')\<rparr>,
          w1))"
proof -
  let ?birthInfo = "\<lparr>dateOfBirth = ''1990-01-15'', timeOfBirth = ''14:30'',
                      placeOfBirth = ''Paris'', timezone = Some ''Europe/Paris''\<rparr>"
  let ?w1 = "sample_world\<lparr>ticks := 1\<rparr> :: (nat, ai_call) world"
  have r: "dateRegex_test ''1990-01-15''" "timeRegex_test ''14:30''"
    "timezoneRegex_test ''Europe/Paris''"
    by code_simp+
  have t: "trim ''1990-01-15'' \<noteq> []" "trim ''14:30'' \<noteq> []" "trim ''Paris'' \<noteq> []"
    by (simp_all add: trim_Nil_iff isWhiteSpace_def)
  have k: "trim ''compatibility'' = ''compatibility''" "trim ''natal_chart'' = ''natal_chart''"
    "trim ''tarot'' = ''tarot''"
    by (simp_all add: trim_def isWhiteSpace_def)
  have v: "validateBirthInfo sample_parse ?birthInfo ''Your'' sample_world = (None, ?w1)"
    by (simp add: validateBirthInfo_def r t sample_parse_def read_clock_def sample_world_def)
  have 1: "RequestAstrologyReading_execute sample_parse (sample_repository None None)
         \<lparr>rar_birthInfo = ?birthInfo, rar_readingType = ''compatibility'',
          rar_partnerBirthInfo = None\<rparr> sample_world =
         (Inr \<lparr>rar_success = False, rar_reading = None,
               rar_error = Some ''Partner birth information is required for compatibility reading''\<rparr>,
          ?w1)"
    using RequestAstrologyReading_partner_rule
      [where parse = sample_parse and w = sample_world and ?w1.0 = ?w1
         and repo = "sample_repository None None"
         and request = "\<lparr>rar_birthInfo = ?birthInfo, rar_readingType = ''compatibility'',
                           rar_partnerBirthInfo = None\<rparr>", THEN conjunct1] v
    by (simp add: k)
  have 2: "RequestAstrologyReading_execute sample_parse (sample_repository None None)
         \<lparr>rar_birthInfo = ?birthInfo, rar_readingType = ''natal_chart'',
          rar_partnerBirthInfo = Some ?birthInfo\<rparr> sample_world =
         (Inr \<lparr>rar_success = False, rar_reading = None,
               rar_error = Some ''Partner birth info is not needed for natal_chart reading''\<rparr>,
          ?w1)"
    using RequestAstrologyReading_partner_rule
      [where parse = sample_parse and w = sample_world and ?w1.0 = ?w1
         and repo = "sample_repository None None" and partner = ?birthInfo
         and request = "\<lparr>rar_birthInfo = ?birthInfo, rar_readingType = ''natal_chart'',
                           rar_partnerBirthInfo = Some ?birthInfo\<rparr>",
         THEN conjunct2, THEN conjunct1] v
    by (simp add: k)
  have 3: "RequestAstrologyReading_execute sample_parse (sample_repository None None)
         \<lparr>rar_birthInfo = ?birthInfo, rar_readingType = ''tarot'',
          rar_partnerBirthInfo = None\<rparr> sample_world =
         (Inr \<lparr>rar_success = False, rar_reading = None,
               rar_error = Some (''Invalid reading type. Allowed types: natal_chart, ''
                 @ ''daily_horoscope, compatibility, transit, solar_return, lunar_return, ''
                 @ ''composite_chart, synastry'')\<rparr>,
          ?w1)"
    using RequestAstrologyReading_partner_rule
      [where parse = sample_parse and w = sample_world and ?w1.0 = ?w1
         and repo = "sample_repository None None"
         and request = "\<lparr>rar_birthInfo = ?birthInfo, rar_readingType = ''tarot'',
                           rar_partnerBirthInfo = None\<rparr>",
         THEN conjunct2, THEN conjunct2] v
    by (simp add: k)
  show ?thesis
    unfolding Let_def using v 1 2 3 by blast
qed

text \<open>The claim as it was stated fails where an earlier check of the reading type answers
  first. With a valid birth info and no partner: a reading type that trims to
  \<^verbatim>\<open>synastry\<close> but is 101 characters long is rejected for its length, and a blank reading
  type, which is outside the allowed set, is rejected as missing.\<close>

theorem RequestAstrologyReading_counterexample:
  "fst (validateBirthInfo sample_parse
          \<lparr>dateOfBirth = ''1990-01-15'', timeOfBirth = ''14:30'', placeOfBirth = ''Paris'',
           timezone = None\<rparr> ''Your'' (sample_world :: (nat, ai_call) world)) = None
   \<and> trim (''synastry'' @ replicate 93 (CHR '' '')) = ''synastry''
   \<and> (case RequestAstrologyReading_execute sample_parse (sample_repository None None)
          \<lparr>rar_birthInfo = \<lparr>dateOfBirth = ''1990-01-15'', timeOfBirth = ''14:30'',
                             placeOfBirth = ''Paris'', timezone = None\<rparr>,
           rar_readingType = ''synastry'' @ replicate 93 (CHR '' ''),
           rar_partnerBirthInfo = None\<rparr> sample_world of
        (Inl e, w') \<Rightarrow> False
      | (Inr result, w') \<Rightarrow>
          \<not> rar_success result \<and>
          rar_error result = Some ''Reading type must be under 100 characters'' \<and> calls w' = [])
   \<and> (case RequestAstrologyReading_execute sample_parse (sample_repository None None)
          \<lparr>rar_birthInfo = \<lparr>dateOfBirth = ''1990-01-15'', timeOfBirth = ''14:30'',
                             placeOfBirth = ''Paris'', timezone = None\<rparr>,
           rar_readingType = '''',
           rar_partnerBirthInfo = None\<rparr> sample_world of
        (Inl e, w') \<Rightarrow> False
      | (Inr result, w') \<Rightarrow>
          \<not> rar_success result \<and>
          rar_error result = Some ''Reading type is required'' \<and> calls w' = [])"
  by code_simp

subsection \<open>No exception leaves a use case\<close>

text \<open>A successful run of \<^verbatim>\<open>SendChatMessage\<close> has seen \<^verbatim>\<open>saveConversation\<close> resolve.\<close>

lemma SendChatMessage_try_success_saved:
  assumes "SendChatMessage_try repo request w = (Inr result, w')" and "scm_success result"
  shows "\<exists>final s. fst (saveConversation repo final s) = Inr ()"
proof -
  have v: "SendChatMessage_validateRequest request = None"
    using assms
    by (cases "SendChatMessage_validateRequest request")
       (auto simp: SendChatMessage_try_def return_io_def)
  with assms(1) obtain fc w5 u where
    "call_repo SaveConversationCall (saveConversation repo) fc w5 = (Inr u, w')"
    by (auto simp: SendChatMessage_try_def bind_io_Inr return_io_def)
  from call_repo_outcome [OF this] have "fst (saveConversation repo fc (backend w5)) = Inr ()"
    by simp
  then show ?thesis by blast
qed

lemma SendChatMessage_execute_cases:
  "(\<exists>result w'. SendChatMessage_try repo request w = (Inr result, w') \<and>
       SendChatMessage_execute repo request w = (Inr result, w'))
   \<or> (\<exists>e w'. SendChatMessage_try repo request w = (Inl e, w') \<and>
       SendChatMessage_execute repo request w =
         (Inr \<lparr>scm_success = False, scm_updatedConversation = None, scm_assistantMessage = None,
               scm_error = Some (SendChatMessage_handleError e)\<rparr>, w'))"
  by (cases "SendChatMessage_try repo request w")
     (auto simp: SendChatMessage_execute_def try_catch_def return_io_def split: sum.splits)

lemma SendChatMessage_returns:
  "case SendChatMessage_execute repo request w of
     (Inl e, w') \<Rightarrow> False
   | (Inr r, w') \<Rightarrow>
       (scm_success r \<and> scm_updatedConversation r \<noteq> None \<and> scm_assistantMessage r \<noteq> None \<and>
        scm_error r = None)
       \<or> (\<not> scm_success r \<and> scm_updatedConversation r = None \<and> scm_assistantMessage r = None \<and>
          scm_error r \<noteq> None)"
  using SendChatMessage_execute_cases [of repo request w]
  by (auto dest!: SendChatMessage_try_Inr)

lemma SendChatMessage_save_failure_surfaced:
  "case SendChatMessage_execute repo request w of
     (Inl e, w') \<Rightarrow> False
   | (Inr r, w') \<Rightarrow>
       (\<forall>chatRequest final.
          calls w' = calls w @ [SendChatMessageCall chatRequest, SaveConversationCall final] \<longrightarrow>
          scm_success r \<or>
          (\<exists>s t. fst (saveConversation repo final s) = Inl t \<and>
             r = \<lparr>scm_success = False, scm_updatedConversation = None,
                  scm_assistantMessage = None,
                  scm_error = Some (SendChatMessage_handleError t)\<rparr>))"
  using SendChatMessage_execute_cases [of repo request w]
proof (elim disjE exE conjE)
  fix result w'
  assume t: "SendChatMessage_try repo request w = (Inr result, w')"
    and x: "SendChatMessage_execute repo request w = (Inr result, w')"
  from SendChatMessage_try_Inr [OF t] show ?thesis
    unfolding x by auto
next
  fix e w'
  assume t: "SendChatMessage_try repo request w = (Inl e, w')"
    and x: "SendChatMessage_execute repo request w =
         (Inr \<lparr>scm_success = False, scm_updatedConversation = None, scm_assistantMessage = None,
               scm_error = Some (SendChatMessage_handleError e)\<rparr>, w')"
  from SendChatMessage_try_Inl [OF t] show ?thesis
    unfolding x by auto blast
qed

lemma SendChatMessage_never_succeeds_unsaved:
  assumes "\<forall>c s. fst (saveConversation repo c s) \<noteq> Inr ()"
  shows "case SendChatMessage_execute repo request w of
     (Inl e, w') \<Rightarrow> False
   | (Inr r, w') \<Rightarrow> \<not> scm_success r"
  using SendChatMessage_execute_cases [of repo request w] assms
  by (auto dest!: SendChatMessage_try_success_saved)

lemma RequestSpiritualGuidance_returns:
  "case RequestSpiritualGuidance_execute repo request w of
     (Inl e, w') \<Rightarrow> False
   | (Inr r, w') \<Rightarrow>
       (rg_success r \<and> rg_guidance r \<noteq> None \<and> rg_error r = None)
       \<or> (\<not> rg_success r \<and> rg_guidance r = None \<and> rg_error r \<noteq> None)"
  by (auto simp: RequestSpiritualGuidance_execute_def RequestSpiritualGuidance_try_def
      try_catch_def bind_io_def return_io_def call_repo_def Let_def
      split: option.splits prod.splits sum.splits)

lemma RequestAstrologyReading_returns:
  "case RequestAstrologyReading_execute parse repo request w of
     (Inl e, w') \<Rightarrow> False
   | (Inr r, w') \<Rightarrow>
       (rar_success r \<and> rar_reading r \<noteq> None \<and> rar_error r = None)
       \<or> (\<not> rar_success r \<and> rar_reading r = None \<and> rar_error r \<noteq> None)"
  by (auto simp: RequestAstrologyReading_execute_def RequestAstrologyReading_try_def
      try_catch_def bind_io_def return_io_def call_repo_def Let_def
      split: option.splits prod.splits sum.splits)

lemma LoadConversations_returns:
  "case LoadConversations_execute repo request w of
     (Inl e, w') \<Rightarrow> False
   | (Inr r, w') \<Rightarrow>
       (lc_success r \<and> lc_conversations r \<noteq> None \<and> lc_error r = None)
       \<or> (\<not> lc_success r \<and> lc_conversations r = None \<and> lc_error r \<noteq> None)"
  by (auto simp: LoadConversations_execute_def LoadConversations_try_def
      try_catch_def bind_io_def return_io_def call_repo_def Let_def
      split: option.splits prod.splits sum.splits)

lemma LoginUser_returns:
  "case LoginUser_execute repo credentials w of
     (Inl e, w') \<Rightarrow> False
   | (Inr r, w') \<Rightarrow>
       (lg_isSuccess r \<and> lg_user r \<noteq> None \<and> lg_tokens r \<noteq> None \<and> lg_error r = None)
       \<or> (\<not> lg_isSuccess r \<and> lg_user r = None \<and> lg_tokens r = None \<and> lg_error r \<noteq> None)"
  by (auto simp: LoginUser_execute_def LoginUser_try_def
      try_catch_def bind_io_def return_io_def call_repo_def Let_def
      split: prod.splits sum.splits)

lemma RegisterUser_returns:
  "case RegisterUser_execute repo data w of
     (Inl e, w') \<Rightarrow> False
   | (Inr r, w') \<Rightarrow>
       (rd_isSuccess r \<and> rd_user r \<noteq> None \<and> rd_tokens r \<noteq> None \<and> rd_error r = None)
       \<or> (\<not> rd_isSuccess r \<and> rd_user r = None \<and> rd_tokens r = None \<and> rd_error r \<noteq> None)"
  by (auto simp: RegisterUser_execute_def RegisterUser_try_def
      try_catch_def bind_io_def return_io_def call_repo_def Let_def
      split: prod.splits sum.splits)

text \<open>
  Claim C6. For each of the six use cases and every input, repository and world,
  \<^verbatim>\<open>execute\<close> returns and does not throw, and what it returns is either a success with its
  payload and no error, or a failure with an error string and no payload. Whatever the
  \<^verbatim>\<open>try\<close> block of \<^verbatim>\<open>SendChatMessage\<close> throws is returned as the failure carrying
  \<^verbatim>\<open>handleError\<close> of it, which for a thrown value that is not an \<^verbatim>\<open>Error\<close> is
  \<^verbatim>\<open>An unexpected error occurred. Please try again.\<close> When the log shows that
  \<^verbatim>\<open>saveConversation\<close> was called after the chat request, the result is the success or it
  is the failure carrying what \<^verbatim>\<open>saveConversation\<close> rejected with; and with a repository
  whose \<^verbatim>\<open>saveConversation\<close> never resolves, no run reports success.
\<close>

theorem use_cases_return_results:
  "(case SendChatMessage_execute repo request w of
      (Inl e, w') \<Rightarrow> False
    | (Inr r, w') \<Rightarrow>
       (scm_success r \<and> scm_updatedConversation r \<noteq> None \<and> scm_assistantMessage r \<noteq> None \<and>
        scm_error r = None)
       \<or> (\<not> scm_success r \<and> scm_updatedConversation r = None \<and> scm_assistantMessage r = None \<and>
          scm_error r \<noteq> None))
   \<and> (case RequestSpiritualGuidance_execute repo guidanceRequest w of
      (Inl e, w') \<Rightarrow> False
    | (Inr r, w') \<Rightarrow>
       (rg_success r \<and> rg_guidance r \<noteq> None \<and> rg_error r = None)
       \<or> (\<not> rg_success r \<and> rg_guidance r = None \<and> rg_error r \<noteq> None))
   \<and> (case RequestAstrologyReading_execute parse repo readingRequest w of
      (Inl e, w') \<Rightarrow> False
    | (Inr r, w') \<Rightarrow>
       (rar_success r \<and> rar_reading r \<noteq> None \<and> rar_error r = None)
       \<or> (\<not> rar_success r \<and> rar_reading r = None \<and> rar_error r \<noteq> None))
   \<and> (case LoadConversations_execute repo loadRequest w of
      (Inl e, w') \<Rightarrow> False
    | (Inr r, w') \<Rightarrow>
       (lc_success r \<and> lc_conversations r \<noteq> None \<and> lc_error r = None)
       \<or> (\<not> lc_success r \<and> lc_conversations r = None \<and> lc_error r \<noteq> None))
   \<and> (case LoginUser_execute authRepo credentials aw of
      (Inl e, w') \<Rightarrow> False
    | (Inr r, w') \<Rightarrow>
       (lg_isSuccess r \<and> lg_user r \<noteq> None \<and> lg_tokens r \<noteq> None \<and> lg_error r = None)
       \<or> (\<not> lg_isSuccess r \<and> lg_user r = None \<and> lg_tokens r = None \<and> lg_error r \<noteq> None))
   \<and> (case RegisterUser_execute authRepo data aw of
      (Inl e, w') \<Rightarrow> False
    | (Inr r, w') \<Rightarrow>
       (rd_isSuccess r \<and> rd_user r \<noteq> None \<and> rd_tokens r \<noteq> None \<and> rd_error r = None)
       \<or> (\<not> rd_isSuccess r \<and> rd_user r = None \<and> rd_tokens r = None \<and> rd_error r \<noteq> None))
   \<and> (SendChatMessage_try repo request w = (Inl t, w1) \<longrightarrow>
        SendChatMessage_execute repo request w =
          (Inr \<lparr>scm_success = False, scm_updatedConversation = None, scm_assistantMessage = None,
                scm_error = Some (SendChatMessage_handleError t)\<rparr>, w1))
   \<and> SendChatMessage_handleError NonError = ''An unexpected error occurred. Please try again.''
   \<and> (case SendChatMessage_execute repo request w of
        (Inl e, w') \<Rightarrow> False
      | (Inr r, w') \<Rightarrow>
          (\<forall>chatRequest final.
             calls w' = calls w @ [SendChatMessageCall chatRequest, SaveConversationCall final] \<longrightarrow>
             scm_success r \<or>
             (\<exists>s t. fst (saveConversation repo final s) = Inl t \<and>
                r = \<lparr>scm_success = False, scm_updatedConversation = None,
                     scm_assistantMessage = None,
                     scm_error = Some (SendChatMessage_handleError t)\<rparr>)))
   \<and> ((\<forall>c s. fst (saveConversation repo c s) \<noteq> Inr ()) \<longrightarrow>
        (case SendChatMessage_execute repo request w of
           (Inl e, w') \<Rightarrow> False
         | (Inr r, w') \<Rightarrow> \<not> scm_success r))"
proof -
  have a: "SendChatMessage_try repo request w = (Inl t, w1) \<longrightarrow>
        SendChatMessage_execute repo request w =
          (Inr \<lparr>scm_success = False, scm_updatedConversation = None, scm_assistantMessage = None,
                scm_error = Some (SendChatMessage_handleError t)\<rparr>, w1)"
    by (simp add: SendChatMessage_execute_def try_catch_def return_io_def)
  have b: "SendChatMessage_handleError NonError = ''An unexpected error occurred. Please try again.''"
    by (simp add: SendChatMessage_handleError_def)
  have c: "(\<forall>c s. fst (saveConversation repo c s) \<noteq> Inr ()) \<longrightarrow>
        (case SendChatMessage_execute repo request w of
           (Inl e, w') \<Rightarrow> False
         | (Inr r, w') \<Rightarrow> \<not> scm_success r)"
    using SendChatMessage_never_succeeds_unsaved [of repo request w] by blast
  show ?thesis
    by (intro conjI)
       (rule SendChatMessage_returns RequestSpiritualGuidance_returns
          RequestAstrologyReading_returns LoadConversations_returns LoginUser_returns
          RegisterUser_returns a b SendChatMessage_save_failure_surfaced c)+
qed

theorem use_cases_return_results_witness:
  "(case SendChatMessage_execute (sample_repository (Some NonError) None)
          \<lparr>req_message = ''Hello'', req_conversation = None, req_userContext = None,
           req_location = None, req_timeOfDay = None\<rparr> sample_world of
      (Inl e, w') \<Rightarrow> False
    | (Inr r, w') \<Rightarrow>
        \<not> scm_success r \<and> scm_updatedConversation r = None \<and> scm_assistantMessage r = None \<and>
        scm_error r = Some ''An unexpected error occurred. Please try again.'' \<and>
        length (calls w') = 1)
   \<and> (\<forall>c s. fst (saveConversation
                    (sample_repository None (Some (Error ''Storage not available''))) c s)
              \<noteq> Inr ())
   \<and> (case SendChatMessage_execute
          (sample_repository None (Some (Error ''Storage not available'')))
          \<lparr>req_message = ''Hello'', req_conversation = None, req_userContext = None,
           req_location = None, req_timeOfDay = None\<rparr> sample_world of
      (Inl e, w') \<Rightarrow> False
    | (Inr r, w') \<Rightarrow>
        \<not> scm_success r \<and> scm_updatedConversation r = None \<and> scm_assistantMessage r = None \<and>
        scm_error r = Some ''Storage not available'' \<and> length (calls w') = 2)"
proof -
  let ?request = "\<lparr>req_message = ''Hello'', req_conversation = None, req_userContext = None,
           req_location = None, req_timeOfDay = None\<rparr>"
  have 1: "(case SendChatMessage_execute (sample_repository (Some NonError) None) ?request
             (sample_world :: (nat, ai_call) world) of
      (Inl e, w') \<Rightarrow> False
    | (Inr r, w') \<Rightarrow>
        \<not> scm_success r \<and> scm_updatedConversation r = None \<and> scm_assistantMessage r = None \<and>
        scm_error r = Some ''An unexpected error occurred. Please try again.'' \<and>
        length (calls w') = 1)"
    by code_simp
  have 2: "\<forall>c s. fst (saveConversation
                    (sample_repository None (Some (Error ''Storage not available''))) c s)
              \<noteq> Inr ()"
    by (simp add: sample_repository_def)
  have 3: "(case SendChatMessage_execute
          (sample_repository None (Some (Error ''Storage not available''))) ?request
          (sample_world :: (nat, ai_call) world) of
      (Inl e, w') \<Rightarrow> False
    | (Inr r, w') \<Rightarrow>
        scm_updatedConversation r = None \<and> scm_assistantMessage r = None \<and>
        scm_error r = Some ''Storage not available'' \<and> length (calls w') = 2)"
    by code_simp
  have 4: "(case SendChatMessage_execute
          (sample_repository None (Some (Error ''Storage not available''))) ?request
          (sample_world :: (nat, ai_call) world) of
      (Inl e, w') \<Rightarrow> False
    | (Inr r, w') \<Rightarrow> \<not> scm_success r)"
    using use_cases_return_results
      [where repo = "sample_repository None (Some (Error ''Storage not available''))"
         and request = ?request and w = sample_world,
       THEN conjunct2, THEN conjunct2, THEN conjunct2, THEN conjunct2, THEN conjunct2,
       THEN conjunct2, THEN conjunct2, THEN conjunct2, THEN conjunct2] 2
    by (rule mp)
  from 3 4 have 5: "(case SendChatMessage_execute
          (sample_repository None (Some (Error ''Storage not available''))) ?request
          (sample_world :: (nat, ai_call) world) of
      (Inl e, w') \<Rightarrow> False
    | (Inr r, w') \<Rightarrow>
        \<not> scm_success r \<and> scm_updatedConversation r = None \<and> scm_assistantMessage r = None \<and>
        scm_error r = Some ''Storage not available'' \<and> length (calls w') = 2)"
    by (auto split: prod.splits sum.splits)
  show ?thesis
    using 1 2 5 by blast
qed

end
